theory Spec2Isabelle
  imports Complex_Main
begin

section \<open>Values, exceptions and the gateway\<close>

text \<open>
  The module \<^verbatim>\<open>plugins/modules/ovh.py\<close> drives the OVH API through one client object
  (\<^verbatim>\<open>self.client\<close>) with the four verbs get, post, put and delete. Request bodies and
  opaque answers are JSON values.
\<close>

datatype json =
    JNone
  | JBool bool
  | JInt int
  | JStr string
  | JList "json list"
  | JDict "(string \<times> json) list"

text \<open>
  The exceptions the code can meet. \<^verbatim>\<open>ResourceNotFoundError\<close> is a subclass of
  \<^verbatim>\<open>APIError\<close> in the ovh package, so \<^verbatim>\<open>except APIError\<close> catches both.
\<close>

datatype exn =
    APIError string
  | ResourceNotFoundError string
  | ValueError string
  | KeyError string
  | IndexError string
  | UnboundLocalError string
  | OverflowError string
  | TypeError string
  | IOError string

fun is_APIError :: "exn \<Rightarrow> bool" where
  "is_APIError (APIError m) = True"
| "is_APIError (ResourceNotFoundError m) = True"
| "is_APIError e = False"

fun exn_message :: "exn \<Rightarrow> string" where
  "exn_message (APIError m) = m"
| "exn_message (ResourceNotFoundError m) = m"
| "exn_message (ValueError m) = m"
| "exn_message (KeyError m) = m"
| "exn_message (IndexError m) = m"
| "exn_message (UnboundLocalError m) = m"
| "exn_message (OverflowError m) = m"
| "exn_message (TypeError m) = m"
| "exn_message (IOError m) = m"

type_synonym kwargs = "(string \<times> json) list"

text \<open>
  Everything the module does to the outside world, in the order it does it: the gateway
  calls (also the ones that raise), the \<^verbatim>\<open>time.sleep\<close> calls and the
  \<^verbatim>\<open>display.display\<close> lines.
\<close>

datatype event =
    Get string kwargs
  | Post string kwargs
  | Put string kwargs
  | Delete string
  | Sleep real
  | Display string

type_synonym trace = "event list"

fun is_mutating :: "event \<Rightarrow> bool" where
  "is_mutating (Post p kw) = True"
| "is_mutating (Put p kw) = True"
| "is_mutating (Delete p) = True"
| "is_mutating e = False"

fun is_sleep :: "event \<Rightarrow> bool" where
  "is_sleep (Sleep d) = True"
| "is_sleep e = False"

fun is_get :: "event \<Rightarrow> bool" where
  "is_get (Get p kw) = True"
| "is_get e = False"

subsection \<open>Answers of the API, by endpoint\<close>

record dns_record =
  subDomain :: string
  target :: string

record task =
  task_status :: string

record progress =
  pg_status :: string
  pg_comment :: string

text \<open>
  \<^verbatim>\<open>/dedicated/server/{name}/install/status\<close>: both keys are optional, the code tests
  \<^verbatim>\<open>'message' in progress_status\<close> and reads \<^verbatim>\<open>progress_status['progress']\<close>.
\<close>

record install_status =
  is_message :: "string option"
  is_progress :: "progress list option"

record server =
  monitoring :: bool
  bootId :: int
  reverse :: string

record disk_group =
  names :: "string list"

record controller =
  disks :: "disk_group list"

record raid_profile =
  controllers :: "controller list"

record interface_details =
  dedicatedServer :: string
  dedicatedServerInterface :: string

text \<open>
  The gateway is the remote side: it answers a call from the history of everything that
  happened before it (so a write can change what a later read returns, and time can pass
  between two reads) and the call itself. An answer is either an exception or data of the
  endpoint's shape; answers the code never inspects stay JSON.
\<close>

record gateway =
  gw_get_json :: "trace \<Rightarrow> string \<Rightarrow> kwargs \<Rightarrow> exn + json"
  gw_get_ids :: "trace \<Rightarrow> string \<Rightarrow> kwargs \<Rightarrow> exn + int list"
  gw_get_names :: "trace \<Rightarrow> string \<Rightarrow> kwargs \<Rightarrow> exn + string list"
  gw_get_dns_record :: "trace \<Rightarrow> string \<Rightarrow> kwargs \<Rightarrow> exn + dns_record"
  gw_get_task :: "trace \<Rightarrow> string \<Rightarrow> kwargs \<Rightarrow> exn + task"
  gw_get_install_status :: "trace \<Rightarrow> string \<Rightarrow> kwargs \<Rightarrow> exn + install_status"
  gw_get_templates :: "trace \<Rightarrow> string \<Rightarrow> kwargs \<Rightarrow> exn + (string \<times> string list) list"
  gw_get_server :: "trace \<Rightarrow> string \<Rightarrow> kwargs \<Rightarrow> exn + server"
  gw_get_reverse :: "trace \<Rightarrow> string \<Rightarrow> kwargs \<Rightarrow> exn + string"
  gw_get_raid_profile :: "trace \<Rightarrow> string \<Rightarrow> kwargs \<Rightarrow> exn + raid_profile"
  gw_get_interface_details :: "trace \<Rightarrow> string \<Rightarrow> kwargs \<Rightarrow> exn + interface_details list"
  gw_post :: "trace \<Rightarrow> string \<Rightarrow> kwargs \<Rightarrow> exn + json"
  gw_put :: "trace \<Rightarrow> string \<Rightarrow> kwargs \<Rightarrow> exn + json"
  gw_delete :: "trace \<Rightarrow> string \<Rightarrow> exn + json"

text \<open>A call asks the gateway at the current history and appends itself to it.\<close>

definition client_get_json :: "gateway \<Rightarrow> trace \<Rightarrow> string \<Rightarrow> kwargs \<Rightarrow> (exn + json) \<times> trace" where
  "client_get_json g tr path kw = (gw_get_json g tr path kw, tr @ [Get path kw])"

definition client_get_ids :: "gateway \<Rightarrow> trace \<Rightarrow> string \<Rightarrow> kwargs \<Rightarrow> (exn + int list) \<times> trace" where
  "client_get_ids g tr path kw = (gw_get_ids g tr path kw, tr @ [Get path kw])"

definition client_get_names :: "gateway \<Rightarrow> trace \<Rightarrow> string \<Rightarrow> kwargs \<Rightarrow> (exn + string list) \<times> trace" where
  "client_get_names g tr path kw = (gw_get_names g tr path kw, tr @ [Get path kw])"

definition client_get_dns_record :: "gateway \<Rightarrow> trace \<Rightarrow> string \<Rightarrow> kwargs \<Rightarrow> (exn + dns_record) \<times> trace" where
  "client_get_dns_record g tr path kw = (gw_get_dns_record g tr path kw, tr @ [Get path kw])"

definition client_get_task :: "gateway \<Rightarrow> trace \<Rightarrow> string \<Rightarrow> kwargs \<Rightarrow> (exn + task) \<times> trace" where
  "client_get_task g tr path kw = (gw_get_task g tr path kw, tr @ [Get path kw])"

definition client_get_install_status :: "gateway \<Rightarrow> trace \<Rightarrow> string \<Rightarrow> kwargs \<Rightarrow> (exn + install_status) \<times> trace" where
  "client_get_install_status g tr path kw = (gw_get_install_status g tr path kw, tr @ [Get path kw])"

definition client_get_templates :: "gateway \<Rightarrow> trace \<Rightarrow> string \<Rightarrow> kwargs \<Rightarrow> (exn + (string \<times> string list) list) \<times> trace" where
  "client_get_templates g tr path kw = (gw_get_templates g tr path kw, tr @ [Get path kw])"

definition client_get_server :: "gateway \<Rightarrow> trace \<Rightarrow> string \<Rightarrow> kwargs \<Rightarrow> (exn + server) \<times> trace" where
  "client_get_server g tr path kw = (gw_get_server g tr path kw, tr @ [Get path kw])"

definition client_get_reverse :: "gateway \<Rightarrow> trace \<Rightarrow> string \<Rightarrow> kwargs \<Rightarrow> (exn + string) \<times> trace" where
  "client_get_reverse g tr path kw = (gw_get_reverse g tr path kw, tr @ [Get path kw])"

definition client_get_raid_profile :: "gateway \<Rightarrow> trace \<Rightarrow> string \<Rightarrow> kwargs \<Rightarrow> (exn + raid_profile) \<times> trace" where
  "client_get_raid_profile g tr path kw = (gw_get_raid_profile g tr path kw, tr @ [Get path kw])"

definition client_get_interface_details :: "gateway \<Rightarrow> trace \<Rightarrow> string \<Rightarrow> kwargs \<Rightarrow> (exn + interface_details list) \<times> trace" where
  "client_get_interface_details g tr path kw = (gw_get_interface_details g tr path kw, tr @ [Get path kw])"

definition client_post :: "gateway \<Rightarrow> trace \<Rightarrow> string \<Rightarrow> kwargs \<Rightarrow> (exn + json) \<times> trace" where
  "client_post g tr path kw = (gw_post g tr path kw, tr @ [Post path kw])"

definition client_put :: "gateway \<Rightarrow> trace \<Rightarrow> string \<Rightarrow> kwargs \<Rightarrow> (exn + json) \<times> trace" where
  "client_put g tr path kw = (gw_put g tr path kw, tr @ [Put path kw])"

definition client_delete :: "gateway \<Rightarrow> trace \<Rightarrow> string \<Rightarrow> (exn + json) \<times> trace" where
  "client_delete g tr path = (gw_delete g tr path, tr @ [Delete path])"

subsection \<open>Strings\<close>

text \<open>\<^verbatim>\<open>str(i)\<close> and \<^verbatim>\<open>'%i' % i\<close> of an integer: its decimal digits.\<close>

definition digit_char :: "nat \<Rightarrow> char" where
  "digit_char d = ''0123456789'' ! d"

function str_nat :: "nat \<Rightarrow> string" where
  "str_nat n = (if n < 10 then [digit_char n] else str_nat (n div 10) @ [digit_char (n mod 10)])"
  by pat_completeness auto
termination
  by (relation "measure id") auto

declare str_nat.simps [simp del]

definition str_int :: "int \<Rightarrow> string" where
  "str_int i = (if i < 0 then CHR ''-'' # str_nat (nat (- i)) else str_nat (nat i))"

text \<open>The double quote character, for the messages that contain it.\<close>

definition dq :: string where
  "dq = [CHR 0x22]"

text \<open>\<^verbatim>\<open>needle in hay\<close> on two strings: \<open>needle\<close> occurs in \<open>hay\<close> as a substring.\<close>

fun starts_with :: "string \<Rightarrow> string \<Rightarrow> bool" where
  "starts_with hay [] = True"
| "starts_with [] (c # cs) = False"
| "starts_with (h # hs) (c # cs) = (h = c \<and> starts_with hs cs)"

fun str_contains :: "string \<Rightarrow> string \<Rightarrow> bool" where
  "str_contains [] needle = (needle = [])"
| "str_contains (h # hs) needle = (starts_with (h # hs) needle \<or> str_contains hs needle)"

text \<open>\<^verbatim>\<open>range(a, b)\<close>: the integers from \<open>a\<close> up to \<open>b - 1\<close>.\<close>

definition py_range :: "int \<Rightarrow> int \<Rightarrow> int list" where
  "py_range a b = [a..b - 1]"

subsection \<open>The interpreter\<close>

text \<open>
  The three library functions the module calls on its \<^verbatim>\<open>max_retry\<close> and \<^verbatim>\<open>sleep\<close>
  parameters: \<^verbatim>\<open>int(s)\<close> and \<^verbatim>\<open>float(s)\<close> on a string give the number or raise, and
  \<^verbatim>\<open>time.sleep(secs)\<close> waits or raises. They belong to Python and not to the module, so
  the module is modelled over any behaviour of them.
\<close>

record interpreter =
  py_int :: "string \<Rightarrow> exn + int"
  py_float :: "string \<Rightarrow> exn + real"
  py_sleep_refused :: "real \<Rightarrow> exn option"

section \<open>The module\<close>

text \<open>
  \<^verbatim>\<open>self.params\<close>. An optional parameter that was not given is \<^verbatim>\<open>None\<close>; the code
  tests each of them for truthiness before any other use, where \<^verbatim>\<open>None\<close> and the empty
  string behave alike, so both are the empty string here. \<^verbatim>\<open>max_retry\<close> and
  \<^verbatim>\<open>sleep\<close> are strings (their defaults are \<^verbatim>\<open>'10'\<close>), which the code reads with
  \<^verbatim>\<open>int\<close> and \<^verbatim>\<open>float\<close> where it needs the number.
\<close>

record params =
  p_name :: string
  p_state :: string
  p_service :: string
  p_domain :: string
  p_ip :: string
  p_vrack :: string
  p_boot :: string
  p_force_reboot :: bool
  p_template :: string
  p_post_installation_script_link :: string
  p_hostname :: string
  p_max_retry :: string
  p_sleep :: string
  p_ssh_key_name :: string
  p_use_distrib_kernel :: bool
  p_link_type :: string

record OVHModule =
  check_mode :: bool
  params :: params
  client :: gateway

text \<open>
  A method returns the triple \<^verbatim>\<open>error, changed, result\<close>, falls off its end (Python
  returns \<^verbatim>\<open>None\<close>) or lets an exception escape.
\<close>

type_synonym outcome = "string option \<times> bool \<times> (string \<times> json) list"

datatype res = Return outcome | ReturnNone | Raise exn

definition fail :: "string \<Rightarrow> outcome" where
  "fail message = (Some message, False, [])"

text \<open>
  \<^verbatim>\<open>succeed(message, changed, contents, objects)\<close> keeps each of the three values that
  \<^verbatim>\<open>is not None\<close>.
\<close>

definition succeed :: "json \<Rightarrow> bool \<Rightarrow> json \<Rightarrow> json \<Rightarrow> outcome" where
  "succeed message changed contents objects =
     (None, changed,
      (if message \<noteq> JNone then [(''msg'', message)] else []) @
      (if contents \<noteq> JNone then [(''contents'', contents)] else []) @
      (if objects \<noteq> JNone then [(''objects'', objects)] else []))"

text \<open>
  The handler \<^verbatim>\<open>except APIError as api_error: return self.fail("Failed to call OVH API:
  {0}".format(api_error))\<close>: any other exception passes through it.
\<close>

definition except_APIError :: "exn \<Rightarrow> res" where
  "except_APIError e =
     (if is_APIError e then Return (fail (''Failed to call OVH API: '' @ exn_message e))
      else Raise e)"

subsection \<open>change_dns\<close>

text \<open>
  The loop of the present branch: fetch each matching record in turn; the first one that
  already carries the wanted name and target ends the method with "already registered",
  a gateway error ends it with a failure. \<open>None\<close> means the loop ran to its end.
\<close>

fun dns_present_loop :: "OVHModule \<Rightarrow> int list \<Rightarrow> trace \<Rightarrow> res option \<times> trace" where
  "dns_present_loop self [] tr = (None, tr)"
| "dns_present_loop self (ind # rest) tr =
     (let domain = p_domain (params self); ip = p_ip (params self); name = p_name (params self) in
      case client_get_dns_record (client self) tr
             (''/domain/zone/'' @ domain @ ''/record/'' @ str_int ind) [] of
        (Inl api_error, tr') \<Rightarrow> (Some (except_APIError api_error), tr')
      | (Inr record, tr') \<Rightarrow>
          if subDomain record = name \<and> target record = ip
          then (Some (Return (succeed
                  (JStr (name @ '' is already registered in domain '' @ domain))
                  False JNone JNone)), tr')
          else dns_present_loop self rest tr')"

text \<open>
  The loop of the absent branch, inside one \<^verbatim>\<open>try\<close>: fetch, delete, remember
  \<^verbatim>\<open>"%s IN A %s"\<close>. The result is the exception that ended it or the list
  \<^verbatim>\<open>record_deleted\<close>.
\<close>

fun dns_absent_loop :: "OVHModule \<Rightarrow> int list \<Rightarrow> string list \<Rightarrow> trace \<Rightarrow> (exn + string list) \<times> trace" where
  "dns_absent_loop self [] record_deleted tr = (Inr record_deleted, tr)"
| "dns_absent_loop self (ind # rest) record_deleted tr =
     (let domain = p_domain (params self) in
      case client_get_dns_record (client self) tr
             (''/domain/zone/'' @ domain @ ''/record/'' @ str_int ind) [] of
        (Inl e, tr') \<Rightarrow> (Inl e, tr')
      | (Inr record, tr') \<Rightarrow>
         (case client_delete (client self) tr'
                 (''/domain/zone/'' @ domain @ ''/record/'' @ str_int ind) of
            (Inl e, tr'') \<Rightarrow> (Inl e, tr'')
          | (Inr r, tr'') \<Rightarrow>
              dns_absent_loop self rest
                (record_deleted @ [subDomain record @ '' IN A '' @ target record]) tr''))"

text \<open>\<^verbatim>\<open>",".join(xs)\<close>\<close>

fun join_comma :: "string list \<Rightarrow> string" where
  "join_comma [] = []"
| "join_comma [x] = x"
| "join_comma (x # y # ys) = x @ '','' @ join_comma (y # ys)"

definition change_dns :: "OVHModule \<Rightarrow> trace \<Rightarrow> res \<times> trace" where
  "change_dns self tr =
     (let domain = p_domain (params self); ip = p_ip (params self);
          name = p_name (params self); state = p_state (params self) in
      if domain = [] then (Return (fail ''Please give a domain to add your target''), tr)
      else if name = ''refresh'' then
        (if check_mode self
         then (Return (succeed
                 (JStr (''Domain '' @ domain @ '' succesfully refreshed! - (dry run mode)''))
                 True JNone JNone), tr)
         else case client_post (client self) tr (''/domain/zone/'' @ domain @ ''/refresh'') [] of
                (Inr r, tr') \<Rightarrow>
                  (Return (succeed (JStr (''Domain '' @ domain @ '' succesfully refreshed !''))
                     True JNone JNone), tr')
              | (Inl api_error, tr') \<Rightarrow> (except_APIError api_error, tr'))
      else if check_mode self
      then (Return (succeed
              (JStr (''DNS succesfully '' @ state @ '' on '' @ name @ ''s - (dry run mode)''))
              True JNone JNone), tr)
      else case client_get_ids (client self) tr (''/domain/zone/'' @ domain @ ''/record'')
                  [(''fieldType'', JStr ''A''), (''subDomain'', JStr name)] of
        (Inl api_error, tr1) \<Rightarrow> (except_APIError api_error, tr1)
      | (Inr existing_records, tr1) \<Rightarrow>
          if state = ''present'' then
            (if ip = [] then (Return (fail ''Please give an IP to add your target''), tr1)
             else if existing_records \<noteq> [] then
               (case dns_present_loop self existing_records tr1 of
                  (Some r, tr2) \<Rightarrow> (r, tr2)
                | (None, tr2) \<Rightarrow>
                    if length existing_records > 1
                    then (Return (fail (''More than one record match the name '' @ name @
                            '' in domain '' @ domain @
                            '', this module won't update all of these records.'')), tr2)
                    else
                      (let ind = hd existing_records in
                       case client_put (client self) tr2
                              (''/domain/zone/'' @ domain @ ''/record/'' @ str_int ind)
                              [(''subDomain'', JStr name), (''target'', JStr ip)] of
                         (Inr r, tr3) \<Rightarrow>
                           (Return (succeed
                              (JStr (''{ '' @ dq @ ''fieldType'' @ dq @ '': '' @ dq @ ''A'' @ dq @
                                 '', '' @ dq @ ''id'' @ dq @ '': '' @ dq @ str_int ind @ dq @
                                 '', '' @ dq @ ''subDomain'' @ dq @ '': '' @ dq @ name @ dq @
                                 '', '' @ dq @ ''target'' @ dq @ '': '' @ dq @ ip @ dq @
                                 '', '' @ dq @ ''zone'' @ dq @ '': '' @ dq @ domain @ dq @
                                 '' } ''))
                              True JNone JNone), tr3)
                       | (Inl api_error, tr3) \<Rightarrow> (except_APIError api_error, tr3)))
             else
               (case client_post (client self) tr1 (''/domain/zone/'' @ domain @ ''/record'')
                       [(''fieldType'', JStr ''A''), (''subDomain'', JStr name),
                        (''target'', JStr ip)] of
                  (Inr result, tr2) \<Rightarrow> (Return (succeed JNone True result JNone), tr2)
                | (Inl api_error, tr2) \<Rightarrow> (except_APIError api_error, tr2)))
          else if state = ''absent'' then
            (if existing_records = []
             then (Return (succeed
                     (JStr (''Target '' @ name @ '' doesn't exist on domain '' @ domain))
                     False JNone JNone), tr1)
             else case dns_absent_loop self existing_records [] tr1 of
                    (Inr record_deleted, tr2) \<Rightarrow>
                      (Return (succeed
                         (JStr (join_comma record_deleted @
                            '' successfuly deleted from domain '' @ domain))
                         True JNone JNone), tr2)
                  | (Inl api_error, tr2) \<Rightarrow> (except_APIError api_error, tr2))
          else (ReturnNone, tr1))"

subsection \<open>get_mac and terminate_server\<close>

text \<open>\<^verbatim>\<open>get_mac\<close> has no \<^verbatim>\<open>try\<close> around its call.\<close>

definition get_mac :: "OVHModule \<Rightarrow> trace \<Rightarrow> res \<times> trace" where
  "get_mac self tr =
     (let name = p_name (params self); link_type = p_link_type (params self) in
      case client_get_json (client self) tr
             (''/dedicated/server/'' @ name @ ''/networkInterfaceController?linkType='' @ link_type)
             [] of
        (Inl e, tr') \<Rightarrow> (Raise e, tr')
      | (Inr result, tr') \<Rightarrow> (Return (succeed result False JNone JNone), tr'))"

definition terminate_server :: "OVHModule \<Rightarrow> trace \<Rightarrow> res \<times> trace" where
  "terminate_server self tr =
     (let name = p_name (params self) in
      if name = [] then (Return (fail ''Please give a dedicated name to terminate''), tr)
      else if check_mode self
      then (Return (succeed
              (JStr (''Terminate '' @ name @
                 '' is done, please confirm via the email sent - (dry run mode)''))
              True JNone JNone), tr)
      else case client_post (client self) tr (''/dedicated/server/'' @ name @ ''/terminate'') [] of
             (Inr r, tr') \<Rightarrow>
               (Return (succeed
                  (JStr (''Terminate '' @ name @
                     '' is done, please confirm via the email sent''))
                  True JNone JNone), tr')
           | (Inl api_error, tr') \<Rightarrow> (except_APIError api_error, tr'))"

subsection \<open>get_status_install\<close>

text \<open>\<^verbatim>\<open>max(tasklist)\<close>: \<^verbatim>\<open>ValueError\<close> on the empty list.\<close>

definition py_max :: "int list \<Rightarrow> exn + int" where
  "py_max xs = (case xs of [] \<Rightarrow> Inl (ValueError ''max() arg is an empty sequence'')
                | y # ys \<Rightarrow> Inr (fold max ys y))"

text \<open>
  \<^verbatim>\<open>time.sleep(float(sleep))\<close>: \<^verbatim>\<open>float\<close> may raise, then \<^verbatim>\<open>time.sleep\<close> may raise;
  otherwise the wait happens.
\<close>

definition time_sleep :: "interpreter \<Rightarrow> string \<Rightarrow> trace \<Rightarrow> (exn + unit) \<times> trace" where
  "time_sleep py sleep tr =
     (case py_float py sleep of
        Inl e \<Rightarrow> (Inl e, tr)
      | Inr secs \<Rightarrow>
         (case py_sleep_refused py secs of
            Some e \<Rightarrow> (Inl e, tr)
          | None \<Rightarrow> (Inr (), tr @ [Sleep secs])))"

text \<open>
  The inner loop \<^verbatim>\<open>for progress in progress_status['progress']\<close>: the comment of the last
  entry whose status is "doing" stays in \<^verbatim>\<open>message\<close>.
\<close>

fun doing_comment :: "progress list \<Rightarrow> string \<Rightarrow> string" where
  "doing_comment [] message = message"
| "doing_comment (p # ps) message =
     doing_comment ps (if pg_status p = ''doing'' then pg_comment p else message)"

definition progress_message :: "install_status \<Rightarrow> exn + string" where
  "progress_message ps =
     (if is_message ps = Some ''Server is not being installed or reinstalled at the moment''
      then Inr ''Server is not being installed or reinstalled at the moment''
      else case is_progress ps of
             None \<Rightarrow> Inl (KeyError ''progress'')
           | Some prog \<Rightarrow> Inr (doing_comment prog []))"

text \<open>
  The body of \<^verbatim>\<open>for i in range(1, int(max_retry))\<close>, over the values of \<open>i\<close> still to
  come. \<open>None\<close> means the loop ran to its end. The body calls
  \<^verbatim>\<open>int(max_retry)\<close> again for its first display line.
\<close>

fun status_loop :: "interpreter \<Rightarrow> OVHModule \<Rightarrow> int list \<Rightarrow> trace \<Rightarrow> res option \<times> trace" where
  "status_loop py self [] tr = (None, tr)"
| "status_loop py self (i # rest) tr =
     (let name = p_name (params self); max_retry = p_max_retry (params self);
          sleep = p_sleep (params self) in
      case py_int py max_retry of
        Inl e \<Rightarrow> (Some (Raise e), tr)
      | Inr n \<Rightarrow>
     (let tr0 = tr @ [Display (str_int i @ '' out of '' @ str_int n)] in
      case client_get_ids (client self) tr0 (''/dedicated/server/'' @ name @ ''/task'')
             [(''function'', JStr ''reinstallServer'')] of
        (Inl api_error, tr1) \<Rightarrow> (Some (except_APIError api_error), tr1)
      | (Inr tasklist, tr1) \<Rightarrow>
         (case py_max tasklist of
            Inl e \<Rightarrow> (Some (Raise e), tr1)
          | Inr m \<Rightarrow>
             (case client_get_task (client self) tr1
                     (''/dedicated/server/'' @ name @ ''/task/'' @ str_int m) [] of
                (Inl api_error, tr2) \<Rightarrow> (Some (except_APIError api_error), tr2)
              | (Inr result, tr2) \<Rightarrow>
                  if str_contains (task_status result) ''done''
                  then (Some (Return (succeed (JStr (task_status result @ '': '')) False
                                JNone JNone)), tr2)
                  else
                   (case client_get_install_status (client self) tr2
                           (''/dedicated/server/'' @ name @ ''/install/status'') [] of
                      (Inl e, tr3) \<Rightarrow> (Some (Raise e), tr3)
                    | (Inr progress_status, tr3) \<Rightarrow>
                       (case progress_message progress_status of
                          Inl e \<Rightarrow> (Some (Raise e), tr3)
                        | Inr message \<Rightarrow>
                           (let tr4 = tr3 @ [Display (task_status result @ '': '' @ message)] in
                            case time_sleep py sleep tr4 of
                              (Inl e, tr5) \<Rightarrow> (Some (Raise e), tr5)
                            | (Inr u, tr5) \<Rightarrow> status_loop py self rest tr5)))))))"

text \<open>
  After the loop, \<^verbatim>\<open>"... %i x %i seconds" % (i, int(sleep))\<close> reads \<open>i\<close> first
  (\<^verbatim>\<open>UnboundLocalError\<close> when the loop had no turn) and then calls \<^verbatim>\<open>int(sleep)\<close>.
\<close>

definition get_status_install :: "interpreter \<Rightarrow> OVHModule \<Rightarrow> trace \<Rightarrow> res \<times> trace" where
  "get_status_install py self tr =
     (let name = p_name (params self); max_retry = p_max_retry (params self);
          sleep = p_sleep (params self) in
      if name = []
      then (Return (fail ''Please provide 'ns' server name from which installation status will be check''), tr)
      else if check_mode self
      then (Return (succeed (JStr ''done - (dry run mode)'') False JNone JNone), tr)
      else case py_int py max_retry of
        Inl e \<Rightarrow> (Raise e, tr)
      | Inr n \<Rightarrow>
         (case status_loop py self (py_range 1 n) tr of
            (Some r, tr') \<Rightarrow> (r, tr')
          | (None, tr') \<Rightarrow>
              if py_range 1 n = []
              then (Raise (UnboundLocalError ''i''), tr')
              else
               (case py_int py sleep of
                  Inl e \<Rightarrow> (Raise e, tr')
                | Inr s \<Rightarrow>
                    (Return (fail (''Max wait time reached, about '' @
                       str_int (last (py_range 1 n)) @ '' x '' @ str_int s @
                       '' seconds'')), tr'))))"

subsection \<open>launch_install\<close>

definition launch_install :: "OVHModule \<Rightarrow> trace \<Rightarrow> res \<times> trace" where
  "launch_install self tr =
     (let name = p_name (params self); template = p_template (params self);
          hostname = p_hostname (params self); ssh_key_name = p_ssh_key_name (params self);
          use_distrib_kernel = p_use_distrib_kernel (params self);
          post_installation_script_link = p_post_installation_script_link (params self) in
      if name = [] then (Return (fail ''Please give the service's name you want to install''), tr)
      else if template = [] then (Return (fail ''Please give a template to install''), tr)
      else if hostname = [] then (Return (fail ''Please give a hostname for your installation''), tr)
      else case client_get_templates (client self) tr
                  (''/dedicated/server/'' @ name @ ''/install/compatibleTemplates'') [] of
        (Inl api_error, tr1) \<Rightarrow> (except_APIError api_error, tr1)
      | (Inr compatible_templates, tr1) \<Rightarrow>
          if template \<notin> set (concat (map snd compatible_templates))
          then (Return (fail (template @ '' doesn't exist in compatibles templates'')), tr1)
          else if check_mode self
          then (Return (succeed
                  (JStr (''Installation in progress on '' @ name @ '' ! - (dry run mode)''))
                  True JNone JNone), tr1)
          else
           (let finish = (\<lambda>ssh tr2.
                  (let details =
                         [(''details'', JDict
                            ([(''language'', JStr ''en''), (''customHostname'', JStr hostname)] @
                             ssh @
                             (if use_distrib_kernel
                              then [(''useDistribKernel'', JBool use_distrib_kernel)] else []) @
                             (if post_installation_script_link \<noteq> []
                              then [(''postInstallationScriptLink'',
                                     JStr post_installation_script_link)] else []))),
                          (''templateName'', JStr template)] in
                   case client_post (client self) tr2
                          (''/dedicated/server/'' @ name @ ''/install/start'') details of
                     (Inr r, tr3) \<Rightarrow>
                       (Return (succeed
                          (JStr (''Installation in progress on '' @ name @ '' !''))
                          True JNone JNone), tr3)
                   | (Inl api_error, tr3) \<Rightarrow> (except_APIError api_error, tr3))) in
            if ssh_key_name \<noteq> [] then
              (case client_get_names (client self) tr1 ''/me/sshKey'' [] of
                 (Inl api_error, tr2) \<Rightarrow> (except_APIError api_error, tr2)
               | (Inr result, tr2) \<Rightarrow>
                   if ssh_key_name \<notin> set result
                   then (Return (fail (ssh_key_name @ '' doesn't exist in public SSH keys'')), tr2)
                   else finish [(''sshKeyName'', JStr ssh_key_name)] tr2)
            else finish [] tr1))"

subsection \<open>change_monitoring\<close>

text \<open>
  The body of \<^verbatim>\<open>for i in range(1, int(max_retry))\<close>: the read has no \<^verbatim>\<open>try\<close>, the
  write has one. \<open>None\<close> means the loop ran to its end.
\<close>

fun monitoring_loop :: "interpreter \<Rightarrow> OVHModule \<Rightarrow> bool \<Rightarrow> int list \<Rightarrow> trace \<Rightarrow> res option \<times> trace" where
  "monitoring_loop py self shouldbe [] tr = (None, tr)"
| "monitoring_loop py self shouldbe (i # rest) tr =
     (let name = p_name (params self); sleep = p_sleep (params self) in
      case client_get_server (client self) tr (''/dedicated/server/'' @ name) [] of
        (Inl e, tr1) \<Rightarrow> (Some (Raise e), tr1)
      | (Inr server_state, tr1) \<Rightarrow>
          if monitoring server_state = shouldbe then
            (if shouldbe
             then (Some (Return (succeed
                     (JStr (''Monitoring activated on '' @ name @ '' after '' @ str_int i @
                        '' time(s)''))
                     True JNone JNone)), tr1)
             else (Some (Return (succeed
                     (JStr (''Monitoring deactivated on '' @ name @ '' after '' @ str_int i @
                        '' time(s)''))
                     True JNone JNone)), tr1))
          else
           (case client_put (client self) tr1 (''/dedicated/server/'' @ name)
                   [(''monitoring'', JBool shouldbe)] of
              (Inl api_error, tr2) \<Rightarrow> (Some (except_APIError api_error), tr2)
            | (Inr r, tr2) \<Rightarrow>
               (case time_sleep py sleep tr2 of
                  (Inl e, tr3) \<Rightarrow> (Some (Raise e), tr3)
                | (Inr u, tr3) \<Rightarrow> monitoring_loop py self shouldbe rest tr3)))"

text \<open>The single quote character, for the messages that end with it.\<close>

definition sq :: string where
  "sq = [CHR 0x27]"

definition change_monitoring :: "interpreter \<Rightarrow> OVHModule \<Rightarrow> trace \<Rightarrow> res \<times> trace" where
  "change_monitoring py self tr =
     (let name = p_name (params self); state = p_state (params self);
          max_retry = p_max_retry (params self) in
      if name = [] then (Return (fail ''Please give a name to change monitoring state''), tr)
      else if state = [] then (Return (fail ''Please give a state for your monitoring''), tr)
      else if state \<noteq> ''present'' \<and> state \<noteq> ''absent''
      then (Return (fail (''State '' @ state @ '' does not match 'present' or 'absent'' @ sq)), tr)
      else
       (let shouldbe = (state = ''present'') in
        if check_mode self
        then (Return (succeed
                (JStr (''Monitoring '' @ state @ '' on '' @ name @ '' - (dry run mode)''))
                True JNone JNone), tr)
        else case py_int py max_retry of
          Inl e \<Rightarrow> (Raise e, tr)
        | Inr n \<Rightarrow>
           (case monitoring_loop py self shouldbe (py_range 1 n) tr of
              (Some r, tr') \<Rightarrow> (r, tr')
            | (None, tr') \<Rightarrow> (Return (fail ''Could not change monitoring flag''), tr'))))"

subsection \<open>change_reverse\<close>

text \<open>
  Only \<^verbatim>\<open>ResourceNotFoundError\<close> is handled around the read (the reverse was never set);
  any other exception escapes.
\<close>

definition change_reverse :: "OVHModule \<Rightarrow> trace \<Rightarrow> res \<times> trace" where
  "change_reverse self tr =
     (let name = p_name (params self); domain = p_domain (params self);
          ip = p_ip (params self) in
      if domain = [] then (Return (fail ''Please give a domain to add your target''), tr)
      else if ip = [] then (Return (fail ''Please give an IP to add your target''), tr)
      else
       (let fqdn = name @ ''.'' @ domain @ ''.'';
            after_read = (\<lambda>result_reverse tr1.
              if result_reverse = fqdn
              then (Return (succeed (JStr ''Reverse already set'') False JNone JNone), tr1)
              else if check_mode self
              then (Return (succeed
                      (JStr (''Reverse '' @ ip @ '' to '' @ fqdn @
                         '' succesfully set ! - (dry run mode)''))
                      True JNone JNone), tr1)
              else case client_post (client self) tr1 (''/ip/'' @ ip @ ''/reverse'')
                          [(''ipReverse'', JStr ip), (''reverse'', JStr fqdn)] of
                     (Inr r, tr2) \<Rightarrow>
                       (Return (succeed
                          (JStr (''Reverse '' @ ip @ '' to '' @ fqdn @ '' succesfully set !''))
                          True JNone JNone), tr2)
                   | (Inl api_error, tr2) \<Rightarrow> (except_APIError api_error, tr2)) in
        case client_get_reverse (client self) tr (''/ip/'' @ ip @ ''/reverse/'' @ ip) [] of
          (Inr result_reverse, tr1) \<Rightarrow> after_read result_reverse tr1
        | (Inl (ResourceNotFoundError m), tr1) \<Rightarrow> after_read [] tr1
        | (Inl e, tr1) \<Rightarrow> (Raise e, tr1)))"

subsection \<open>list_service\<close>

fun list_dedicated_loop :: "OVHModule \<Rightarrow> string list \<Rightarrow> string list \<Rightarrow> trace \<Rightarrow> (exn + string list) \<times> trace" where
  "list_dedicated_loop self [] customlist tr = (Inr customlist, tr)"
| "list_dedicated_loop self (i # rest) customlist tr =
     (case client_get_server (client self) tr (''/dedicated/server/'' @ i) [] of
        (Inl e, tr') \<Rightarrow> (Inl e, tr')
      | (Inr test, tr') \<Rightarrow>
          list_dedicated_loop self rest (customlist @ [reverse test @ ''='' @ i]) tr')"

definition list_dedicated :: "OVHModule \<Rightarrow> trace \<Rightarrow> res \<times> trace" where
  "list_dedicated self tr =
     (case client_get_names (client self) tr ''/dedicated/server'' [] of
        (Inl api_error, tr1) \<Rightarrow> (except_APIError api_error, tr1)
      | (Inr result, tr1) \<Rightarrow>
         (case list_dedicated_loop self result [] tr1 of
            (Inl api_error, tr2) \<Rightarrow> (except_APIError api_error, tr2)
          | (Inr customlist, tr2) \<Rightarrow>
              (Return (succeed JNone False JNone (JList (map JStr customlist))), tr2)))"

definition list_templates :: "OVHModule \<Rightarrow> trace \<Rightarrow> res \<times> trace" where
  "list_templates self tr =
     (case client_get_names (client self) tr ''/me/installationTemplate'' [] of
        (Inl api_error, tr1) \<Rightarrow> (except_APIError api_error, tr1)
      | (Inr result, tr1) \<Rightarrow>
         (let customlist = filter (\<lambda>i. \<not> str_contains i ''tmp-mgr'') result in
          (Return (succeed JNone False JNone (JList (map JStr customlist))), tr1)))"

definition list_service :: "OVHModule \<Rightarrow> trace \<Rightarrow> res \<times> trace" where
  "list_service self tr =
     (let name = p_name (params self) in
      if name = ''dedicated'' then list_dedicated self tr
      else if name = ''templates'' then list_templates self tr
      else (Return (fail (name @ '' not supported for 'list' service'')), tr))"

subsection \<open>change_boot_dedicated\<close>

text \<open>
  The dictionary \<^verbatim>\<open>bootid = {'harddisk': 1, 'rescue': 1122}\<close>, read with
  \<^verbatim>\<open>bootid[boot]\<close>.
\<close>

definition bootid :: "string \<Rightarrow> exn + int" where
  "bootid boot =
     (if boot = ''harddisk'' then Inr 1
      else if boot = ''rescue'' then Inr 1122
      else Inl (KeyError boot))"

definition change_boot_dedicated :: "OVHModule \<Rightarrow> trace \<Rightarrow> res \<times> trace" where
  "change_boot_dedicated self tr =
     (let name = p_name (params self); boot = p_boot (params self);
          force_reboot = p_force_reboot (params self) in
      if check_mode self
      then (Return (succeed
              (JStr (name @ '' is now set to boot on '' @ boot @
                 ''. Reboot in progress... - (dry run mode)''))
              True JNone JNone), tr)
      else case client_get_server (client self) tr (''/dedicated/server/'' @ name) [] of
        (Inl api_error, tr1) \<Rightarrow> (except_APIError api_error, tr1)
      | (Inr check, tr1) \<Rightarrow>
         (case bootid boot of
            Inl e \<Rightarrow> (Raise e, tr1)
          | Inr wanted \<Rightarrow>
              if wanted \<noteq> bootId check then
                (case client_put (client self) tr1 (''/dedicated/server/'' @ name)
                        [(''bootId'', JInt wanted)] of
                   (Inl api_error, tr2) \<Rightarrow> (except_APIError api_error, tr2)
                 | (Inr r, tr2) \<Rightarrow>
                     (Return (succeed
                        (JStr (name @ '' is now set to boot on '' @ boot @ ''.''))
                        True JNone JNone), tr2))
              else if force_reboot then
                (case client_post (client self) tr1 (''/dedicated/server/'' @ name @ ''/reboot'') [] of
                   (Inl api_error, tr2) \<Rightarrow> (except_APIError api_error, tr2)
                 | (Inr r, tr2) \<Rightarrow>
                     (Return (succeed
                        (JStr (name @ '' is now rebooting on '' @ boot))
                        True JNone JNone), tr2))
              else (Return (succeed
                      (JStr (name @ '' already configured for boot on '' @ boot))
                      False JNone JNone), tr1)))"

subsection \<open>generate_template\<close>

text \<open>
  The template file, as \<^verbatim>\<open>yaml.load\<close> returns it: the keys the code reads. Each entry of
  \<^verbatim>\<open>partition\<close> is the dictionary that \<^verbatim>\<open>ast.literal_eval\<close> makes of it, with its
  optional key \<^verbatim>\<open>raid\<close>. Values the code only passes on to the API stay JSON.
\<close>

record partition =
  pt_filesystem :: json
  pt_mountpoint :: json
  pt_raid :: "json option"
  pt_size :: json
  pt_step :: json
  pt_type :: json

record template_conf =
  templateName :: string
  baseTemplateName :: json
  defaultLanguage :: json
  customHostname :: json
  postInstallationScriptLink :: json
  postInstallationScriptReturn :: json
  sshKeyName :: json
  useDistributionKernel :: json
  partitionScheme :: string
  partitionSchemePriority :: json
  isHardwareRaid :: bool
  raidMode :: json
  partitions :: "partition list"

text \<open>
  The block \<^verbatim>\<open>if conf['isHardwareRaid']:\<close>. The profile is read without a \<^verbatim>\<open>try\<close>;
  the disks are \<^verbatim>\<open>result['controllers'][0]['disks'][0]['names']\<close>. \<open>None\<close> means the
  method goes on to the partitions.
\<close>

definition template_hardware_raid :: "OVHModule \<Rightarrow> template_conf \<Rightarrow> trace \<Rightarrow> res option \<times> trace" where
  "template_hardware_raid self conf tr =
     (let name = p_name (params self) in
      if isHardwareRaid conf then
        (case client_get_raid_profile (client self) tr
                (''/dedicated/server/'' @ name @ ''/install/hardwareRaidProfile'') [] of
           (Inl e, tr1) \<Rightarrow> (Some (Raise e), tr1)
         | (Inr result, tr1) \<Rightarrow>
             if length (controllers result) \<noteq> 1
             then (Some (Return (fail ''Failed to call OVH API: {0} Code can't handle more than one controller when using Hardware Raid setups'')), tr1)
             else
              (case disks (hd (controllers result)) of
                 [] \<Rightarrow> (Some (Raise (IndexError ''list index out of range'')), tr1)
               | first_group # groups \<Rightarrow>
                  (case client_post (client self) tr1
                          (''/me/installationTemplate/'' @ templateName conf @
                           ''/partitionScheme/'' @ partitionScheme conf @ ''/hardwareRaid'')
                          [(''disks'', JList (map JStr (names first_group))),
                           (''mode'', raidMode conf),
                           (''name'', JStr (partitionScheme conf)),
                           (''step'', JInt 1)] of
                     (Inl api_error, tr2) \<Rightarrow> (Some (except_APIError api_error), tr2)
                   | (Inr r, tr2) \<Rightarrow> (None, tr2))))
      else (None, tr))"

text \<open>The loop \<^verbatim>\<open>for k in conf['partition']\<close>: one post for each partition.\<close>

fun template_partition_loop :: "OVHModule \<Rightarrow> template_conf \<Rightarrow> partition list \<Rightarrow> trace \<Rightarrow> res option \<times> trace" where
  "template_partition_loop self conf [] tr = (None, tr)"
| "template_partition_loop self conf (part # rest) tr =
     (case client_post (client self) tr
             (''/me/installationTemplate/'' @ templateName conf @
              ''/partitionScheme/'' @ partitionScheme conf @ ''/partition'')
             (case pt_raid part of
                Some raid \<Rightarrow>
                  [(''filesystem'', pt_filesystem part),
                   (''mountpoint'', pt_mountpoint part),
                   (''raid'', raid),
                   (''size'', pt_size part),
                   (''step'', pt_step part),
                   (''type'', pt_type part)]
              | None \<Rightarrow>
                  [(''filesystem'', pt_filesystem part),
                   (''mountpoint'', pt_mountpoint part),
                   (''size'', pt_size part),
                   (''step'', pt_step part),
                   (''type'', pt_type part)]) of
        (Inl api_error, tr') \<Rightarrow> (Some (except_APIError api_error), tr')
      | (Inr r, tr') \<Rightarrow> template_partition_loop self conf rest tr')"

text \<open>The part of the method after \<^verbatim>\<open># state == 'present'\<close>.\<close>

definition template_create :: "OVHModule \<Rightarrow> template_conf \<Rightarrow> trace \<Rightarrow> res \<times> trace" where
  "template_create self conf tr =
     (case client_post (client self) tr ''/me/installationTemplate''
             [(''baseTemplateName'', baseTemplateName conf),
              (''defaultLanguage'', defaultLanguage conf),
              (''name'', JStr (templateName conf))] of
        (Inl api_error, tr1) \<Rightarrow> (except_APIError api_error, tr1)
      | (Inr r1, tr1) \<Rightarrow>
     (case client_put (client self) tr1 (''/me/installationTemplate/'' @ templateName conf)
             [(''customization'', JDict
                 [(''customHostname'', customHostname conf),
                  (''postInstallationScriptLink'', postInstallationScriptLink conf),
                  (''postInstallationScriptReturn'', postInstallationScriptReturn conf),
                  (''sshKeyName'', sshKeyName conf),
                  (''useDistributionKernel'', useDistributionKernel conf)]),
              (''defaultLanguage'', defaultLanguage conf),
              (''templateName'', JStr (templateName conf))] of
        (Inl api_error, tr2) \<Rightarrow> (except_APIError api_error, tr2)
      | (Inr r2, tr2) \<Rightarrow>
     (case client_post (client self) tr2
             (''/me/installationTemplate/'' @ templateName conf @ ''/partitionScheme'')
             [(''name'', JStr (partitionScheme conf)),
              (''priority'', partitionSchemePriority conf)] of
        (Inl api_error, tr3) \<Rightarrow> (except_APIError api_error, tr3)
      | (Inr r3, tr3) \<Rightarrow>
     (case template_hardware_raid self conf tr3 of
        (Some r, tr4) \<Rightarrow> (r, tr4)
      | (None, tr4) \<Rightarrow>
     (case template_partition_loop self conf (partitions conf) tr4 of
        (Some r, tr5) \<Rightarrow> (r, tr5)
      | (None, tr5) \<Rightarrow>
     (case client_post (client self) tr5
             (''/me/installationTemplate/'' @ templateName conf @ ''/checkIntegrity'') [] of
        (Inl api_error, tr6) \<Rightarrow> (except_APIError api_error, tr6)
      | (Inr r6, tr6) \<Rightarrow>
          (Return (succeed
             (JStr (''Template '' @ templateName conf @ '' succesfully created''))
             True JNone JNone), tr6)))))))"

text \<open>
  \<open>yaml_load\<close> stands for \<^verbatim>\<open>open(src)\<close> and \<^verbatim>\<open>yaml.load(stream)\<close>: the file named by
  the parameter \<^verbatim>\<open>template\<close>, or the exception that reading it raises. In check mode the
  message is the format string itself: it has no \<^verbatim>\<open>{}\<close> field, so \<^verbatim>\<open>str.format\<close>
  returns it unchanged.
\<close>

definition generate_template :: "(string \<Rightarrow> exn + template_conf) \<Rightarrow> OVHModule \<Rightarrow> trace \<Rightarrow> res \<times> trace" where
  "generate_template yaml_load self tr =
     (let template = p_template (params self); state = p_state (params self) in
      if template = [] then (Return (fail ''No template parameter given''), tr)
      else if check_mode self
      then (Return (succeed
              (JStr ''%s succesfully %s on ovh API - (dry run mode)'') True JNone JNone), tr)
      else if state \<noteq> ''present'' \<and> state \<noteq> ''absent''
      then (Return (fail (''State '' @ state @ '' not supported. Only present/absent'')), tr)
      else case yaml_load template of
        Inl e \<Rightarrow> (Raise e, tr)
      | Inr conf \<Rightarrow>
          if state = ''absent'' then
            (case client_delete (client self) tr
                    (''/me/installationTemplate/'' @ templateName conf) of
               (Inl api_error, tr1) \<Rightarrow> (except_APIError api_error, tr1)
             | (Inr r, tr1) \<Rightarrow>
                 (Return (succeed
                    (JStr (''Template '' @ templateName conf @ '' succesfully deleted''))
                    True JNone JNone), tr1))
          else template_create self conf tr)"

subsection \<open>change_vrack\<close>

text \<open>
  The two \<^verbatim>\<open>for\<close> loops of the absent branch: the first entry of the server stops the
  loop with one delete.
\<close>

fun vrack_absent_new :: "OVHModule \<Rightarrow> interface_details list \<Rightarrow> trace \<Rightarrow> res option \<times> trace" where
  "vrack_absent_new self [] tr = (None, tr)"
| "vrack_absent_new self (new_server # rest) tr =
     (let name = p_name (params self); vrack = p_vrack (params self) in
      if dedicatedServer new_server = name then
        (case client_delete (client self) tr
                (''/vrack/'' @ vrack @ ''/dedicatedServerInterface/'' @
                 dedicatedServerInterface new_server) of
           (Inr result, tr') \<Rightarrow> (Some (Return (succeed JNone True result JNone)), tr')
         | (Inl api_error, tr') \<Rightarrow> (Some (except_APIError api_error), tr'))
      else vrack_absent_new self rest tr)"

fun vrack_absent_old :: "OVHModule \<Rightarrow> string list \<Rightarrow> trace \<Rightarrow> res option \<times> trace" where
  "vrack_absent_old self [] tr = (None, tr)"
| "vrack_absent_old self (old_server # rest) tr =
     (let name = p_name (params self); vrack = p_vrack (params self) in
      if old_server = name then
        (case client_delete (client self) tr
                (''/vrack/'' @ vrack @ ''/dedicatedServer/'' @ name) of
           (Inr result, tr') \<Rightarrow> (Some (Return (succeed JNone True result JNone)), tr')
         | (Inl api_error, tr') \<Rightarrow> (Some (except_APIError api_error), tr'))
      else vrack_absent_old self rest tr)"

definition change_vrack :: "OVHModule \<Rightarrow> trace \<Rightarrow> res \<times> trace" where
  "change_vrack self tr =
     (let name = p_name (params self); state = p_state (params self);
          vrack = p_vrack (params self) in
      if vrack = []
      then (Return (fail ''Please give a vrack name to add/remove your server''), tr)
      else if state \<noteq> ''present'' \<and> state \<noteq> ''absent''
      then (Return (succeed (JStr ''Vrack service only uses present/absent state'')
              False JNone JNone), tr)
      else if check_mode self
      then (Return (succeed
              (JStr (name @ '' succesfully '' @ state @ '' on '' @ vrack @
                 '' - (dry run mode)''))
              True JNone JNone), tr)
      else if state = ''present'' then
        (case client_get_names (client self) tr
                (''/dedicated/server/'' @ name @ ''/virtualNetworkInterface'')
                [(''mode'', JStr ''vrack'')] of
           (Inl api_error, tr1) \<Rightarrow> (except_APIError api_error, tr1)
         | (Inr result, tr1) \<Rightarrow>
             if length result \<noteq> 0 then
               (case client_get_interface_details (client self) tr1
                       (''/vrack/'' @ vrack @ ''/dedicatedServerInterfaceDetails'') [] of
                  (Inl api_error, tr2) \<Rightarrow> (except_APIError api_error, tr2)
                | (Inr is_already_registered, tr2) \<Rightarrow>
                    if name \<in> set (map dedicatedServer is_already_registered)
                    then (Return (succeed
                            (JStr (name @ '' is already registered on '' @ vrack))
                            False JNone JNone), tr2)
                    else
                     (case client_post (client self) tr2
                             (''/vrack/'' @ vrack @ ''/dedicatedServerInterface'')
                             [(''dedicatedServerInterface'', JStr (concat result))] of
                        (Inr result2, tr3) \<Rightarrow>
                          (Return (succeed JNone True result2 JNone), tr3)
                      | (Inl api_error, tr3) \<Rightarrow> (except_APIError api_error, tr3)))
             else
               (case client_get_names (client self) tr1
                       (''/vrack/'' @ vrack @ ''/dedicatedServer'') [] of
                  (Inl api_error, tr2) \<Rightarrow> (except_APIError api_error, tr2)
                | (Inr is_already_registered, tr2) \<Rightarrow>
                    if name \<in> set is_already_registered
                    then (Return (succeed
                            (JStr (name @ '' is already registered on '' @ vrack))
                            False JNone JNone), tr2)
                    else
                     (case client_post (client self) tr2
                             (''/vrack/'' @ vrack @ ''/dedicatedServer'')
                             [(''dedicatedServer'', JStr name)] of
                        (Inr result2, tr3) \<Rightarrow>
                          (Return (succeed JNone True result2 JNone), tr3)
                      | (Inl api_error, tr3) \<Rightarrow> (except_APIError api_error, tr3))))
      else
        (case client_get_interface_details (client self) tr
                (''/vrack/'' @ vrack @ ''/dedicatedServerInterfaceDetails'') [] of
           (Inl api_error, tr1) \<Rightarrow> (except_APIError api_error, tr1)
         | (Inr result_new, tr1) \<Rightarrow>
            (case client_get_names (client self) tr1
                    (''/vrack/'' @ vrack @ ''/dedicatedServer'') [] of
               (Inl api_error, tr2) \<Rightarrow> (except_APIError api_error, tr2)
             | (Inr result_old, tr2) \<Rightarrow>
                (case vrack_absent_new self result_new tr2 of
                   (Some r, tr3) \<Rightarrow> (r, tr3)
                 | (None, tr3) \<Rightarrow>
                    (case vrack_absent_old self result_old tr3 of
                       (Some r, tr4) \<Rightarrow> (r, tr4)
                     | (None, tr4) \<Rightarrow>
                         (Return (succeed (JStr (''No '' @ name @ '' in '' @ vrack))
                            False JNone JNone), tr4))))))"

subsection \<open>run\<close>

text \<open>
  What \<^verbatim>\<open>run\<close> finds around it: whether the ovh package could be imported, what
  \<^verbatim>\<open>ovh.Client(...)\<close> gives (the client or an exception), the template files, and the
  interpreter.
\<close>

record environment =
  python :: interpreter
  HAS_OVH :: bool
  ovh_Client :: "exn + gateway"
  yaml_load :: "string \<Rightarrow> exn + template_conf"

text \<open>
  \<^verbatim>\<open>choice_map.get(self.params['service'])()\<close>: a service that is not in the map gives
  \<^verbatim>\<open>None\<close>, and calling it raises \<^verbatim>\<open>TypeError\<close>.
\<close>

definition run :: "environment \<Rightarrow> bool \<Rightarrow> params \<Rightarrow> trace \<Rightarrow> res \<times> trace" where
  "run env cm ps tr =
     (if \<not> HAS_OVH env then (Return (fail ''OVH Api wrapper not installed''), tr)
      else case ovh_Client env of
        Inl api_error \<Rightarrow> (except_APIError api_error, tr)
      | Inr g \<Rightarrow>
         (let self = \<lparr>check_mode = cm, params = ps, client = g\<rparr>;
              service = p_service ps in
          if service = ''dns'' then change_dns self tr
          else if service = ''getmac'' then get_mac self tr
          else if service = ''terminate'' then terminate_server self tr
          else if service = ''status'' then get_status_install (python env) self tr
          else if service = ''install'' then launch_install self tr
          else if service = ''monitoring'' then change_monitoring (python env) self tr
          else if service = ''reverse'' then change_reverse self tr
          else if service = ''list'' then list_service self tr
          else if service = ''boot'' then change_boot_dedicated self tr
          else if service = ''template'' then generate_template (yaml_load env) self tr
          else if service = ''vrack'' then change_vrack self tr
          else (Raise (TypeError '''NoneType' object is not callable''), tr)))"

section \<open>Observations on traces\<close>

text \<open>
  The path of the RAID grouping call of \<^verbatim>\<open>generate_template\<close>, and the events that
  post to a given path.
\<close>

definition raid_post_path :: "template_conf \<Rightarrow> string" where
  "raid_post_path conf =
     ''/me/installationTemplate/'' @ templateName conf @
     ''/partitionScheme/'' @ partitionScheme conf @ ''/hardwareRaid''"

fun is_post_to :: "string \<Rightarrow> event \<Rightarrow> bool" where
  "is_post_to path (Post p kw) = (p = path)"
| "is_post_to path e = False"

text \<open>
  The reads of one task of a server, \<^verbatim>\<open>/dedicated/server/{name}/task/{id}\<close>: the status
  fetches of the installation poll.
\<close>

fun is_task_fetch :: "string \<Rightarrow> event \<Rightarrow> bool" where
  "is_task_fetch name (Get p kw) = starts_with p (''/dedicated/server/'' @ name @ ''/task/'')"
| "is_task_fetch name e = False"

section \<open>Test doubles\<close>

text \<open>
  Concrete gateways and parameters, on which the theorems below are run. In
  \<open>stub_gateway\<close> every call is refused; the others answer some calls.
\<close>

definition stub_gateway :: gateway where
  "stub_gateway =
     \<lparr>gw_get_json = (\<lambda>h path kw. Inl (APIError ''This service is unavailable'')),
      gw_get_ids = (\<lambda>h path kw. Inl (APIError ''This service is unavailable'')),
      gw_get_names = (\<lambda>h path kw. Inl (APIError ''This service is unavailable'')),
      gw_get_dns_record = (\<lambda>h path kw. Inl (APIError ''This service is unavailable'')),
      gw_get_task = (\<lambda>h path kw. Inl (APIError ''This service is unavailable'')),
      gw_get_install_status = (\<lambda>h path kw. Inl (APIError ''This service is unavailable'')),
      gw_get_templates = (\<lambda>h path kw. Inl (APIError ''This service is unavailable'')),
      gw_get_server = (\<lambda>h path kw. Inl (APIError ''This service is unavailable'')),
      gw_get_reverse = (\<lambda>h path kw. Inl (APIError ''This service is unavailable'')),
      gw_get_raid_profile = (\<lambda>h path kw. Inl (APIError ''This service is unavailable'')),
      gw_get_interface_details = (\<lambda>h path kw. Inl (APIError ''This service is unavailable'')),
      gw_post = (\<lambda>h path kw. Inl (APIError ''This service is unavailable'')),
      gw_put = (\<lambda>h path kw. Inl (APIError ''This service is unavailable'')),
      gw_delete = (\<lambda>h path. Inl (APIError ''This service is unavailable''))\<rparr>"

text \<open>
  A double for the interpreter. \<^verbatim>\<open>int\<close> reads an unsigned decimal numeral, \<^verbatim>\<open>float\<close> one
  with an optional fraction, as Python does; this double refuses every other string with
  \<^verbatim>\<open>ValueError\<close>, which is narrower than Python. \<^verbatim>\<open>time.sleep\<close> refuses a negative length.
\<close>

definition digit_of :: "char \<Rightarrow> int option" where
  "digit_of c = map_of (zip ''0123456789'' [0, 1, 2, 3, 4, 5, 6, 7, 8, 9]) c"

fun read_digits :: "string \<Rightarrow> int \<Rightarrow> int option" where
  "read_digits [] acc = Some acc"
| "read_digits (c # cs) acc =
     (case digit_of c of None \<Rightarrow> None | Some d \<Rightarrow> read_digits cs (10 * acc + d))"

definition read_numeral :: "string \<Rightarrow> int option" where
  "read_numeral s = (if s = [] then None else read_digits s 0)"

definition read_fraction :: "string \<Rightarrow> real option" where
  "read_fraction s =
     (let whole = takeWhile (\<lambda>c. c \<noteq> CHR ''.'') s;
          rest = dropWhile (\<lambda>c. c \<noteq> CHR ''.'') s in
      if rest = [] then map_option real_of_int (read_numeral whole)
      else case (read_numeral whole, read_numeral (drop 1 rest)) of
             (Some a, Some b) \<Rightarrow> Some (real_of_int a + real_of_int b / 10 ^ length (drop 1 rest))
           | other \<Rightarrow> None)"

definition plain_python :: interpreter where
  "plain_python =
     \<lparr>py_int = (\<lambda>s. case read_numeral s of
         None \<Rightarrow> Inl (ValueError (''invalid literal for int() with base 10: '' @ sq @ s @ sq))
       | Some n \<Rightarrow> Inr n),
      py_float = (\<lambda>s. case read_fraction s of
         None \<Rightarrow> Inl (ValueError (''could not convert string to float: '' @ sq @ s @ sq))
       | Some x \<Rightarrow> Inr x),
      py_sleep_refused = (\<lambda>secs.
         if secs < 0 then Some (ValueError ''sleep length must be non-negative'') else None)\<rparr>"

definition default_params :: params where
  "default_params =
     \<lparr>p_name = [], p_state = ''present'', p_service = [], p_domain = [], p_ip = [],
      p_vrack = [], p_boot = ''harddisk'', p_force_reboot = False, p_template = [],
      p_post_installation_script_link = [], p_hostname = [], p_max_retry = ''10'',
      p_sleep = ''10'',
      p_ssh_key_name = [], p_use_distrib_kernel = False, p_link_type = ''private''\<rparr>"

definition dns_gateway :: gateway where
  "dns_gateway = stub_gateway
     \<lparr>gw_get_ids := (\<lambda>h path kw.
         if path = ''/domain/zone/example.com/record'' then Inr [1, 2]
         else Inl (ResourceNotFoundError ''This service does not exist'')),
      gw_get_dns_record := (\<lambda>h path kw.
         if path = ''/domain/zone/example.com/record/1''
         then Inr \<lparr>subDomain = ''www'', target = ''192.0.2.10''\<rparr>
         else if path = ''/domain/zone/example.com/record/2''
         then Inr \<lparr>subDomain = ''www'', target = ''192.0.2.11''\<rparr>
         else Inl (ResourceNotFoundError ''This service does not exist''))\<rparr>"

definition dns_module :: "string \<Rightarrow> OVHModule" where
  "dns_module ip =
     \<lparr>check_mode = False,
      params = default_params\<lparr>p_service := ''dns'', p_name := ''www'',
                 p_domain := ''example.com'', p_ip := ip\<rparr>,
      client = dns_gateway\<rparr>"

definition boot_gateway :: "int \<Rightarrow> gateway" where
  "boot_gateway current = stub_gateway
     \<lparr>gw_get_server := (\<lambda>h path kw.
         if path = ''/dedicated/server/sv1''
         then Inr \<lparr>monitoring = True, bootId = current, reverse = ''sv1.example.com''\<rparr>
         else Inl (ResourceNotFoundError ''This service does not exist'')),
      gw_put := (\<lambda>h path kw. Inr JNone),
      gw_post := (\<lambda>h path kw. Inr JNone)\<rparr>"

definition boot_module :: "int \<Rightarrow> string \<Rightarrow> bool \<Rightarrow> OVHModule" where
  "boot_module current boot force =
     \<lparr>check_mode = False,
      params = default_params\<lparr>p_service := ''boot'', p_name := ''sv1'', p_boot := boot,
                 p_force_reboot := force\<rparr>,
      client = boot_gateway current\<rparr>"

definition vrack_gateway :: "exn + string list \<Rightarrow> json \<Rightarrow> gateway" where
  "vrack_gateway legacy answer = stub_gateway
     \<lparr>gw_get_names := (\<lambda>h path kw.
         if path = ''/dedicated/server/sv1/virtualNetworkInterface'' then Inr []
         else if path = ''/vrack/pn-1234/dedicatedServer'' then legacy
         else Inl (ResourceNotFoundError ''This service does not exist'')),
      gw_post := (\<lambda>h path kw. Inr answer)\<rparr>"

definition vrack_module :: "exn + string list \<Rightarrow> json \<Rightarrow> OVHModule" where
  "vrack_module legacy answer =
     \<lparr>check_mode = False,
      params = default_params\<lparr>p_service := ''vrack'', p_name := ''sv1'', p_vrack := ''pn-1234''\<rparr>,
      client = vrack_gateway legacy answer\<rparr>"

definition vrack_task :: json where
  "vrack_task =
     JDict [(''function'', JStr ''addDedicatedServerToVrack''), (''status'', JStr ''init'')]"

definition template_gateway :: "raid_profile \<Rightarrow> gateway" where
  "template_gateway prof = stub_gateway
     \<lparr>gw_get_raid_profile := (\<lambda>h path kw.
         if path = ''/dedicated/server/sv1/install/hardwareRaidProfile'' then Inr prof
         else Inl (ResourceNotFoundError ''This service does not exist'')),
      gw_post := (\<lambda>h path kw. Inr JNone),
      gw_put := (\<lambda>h path kw. Inr JNone)\<rparr>"

definition example_conf :: template_conf where
  "example_conf =
     \<lparr>templateName = ''custom'', baseTemplateName = JStr ''debian10_64'',
      defaultLanguage = JStr ''en'', customHostname = JStr ''test'',
      postInstallationScriptLink = JNone, postInstallationScriptReturn = JNone,
      sshKeyName = JStr ''deploy'', useDistributionKernel = JBool False,
      partitionScheme = ''custom'', partitionSchemePriority = JInt 1,
      isHardwareRaid = True, raidMode = JStr ''raid1'',
      partitions =
        [\<lparr>pt_filesystem = JStr ''ext4'', pt_mountpoint = JStr ''/'', pt_raid = None,
          pt_size = JInt 20000, pt_step = JInt 1, pt_type = JStr ''primary''\<rparr>]\<rparr>"

definition example_yaml :: "string \<Rightarrow> exn + template_conf" where
  "example_yaml src =
     (if src = ''custom.yml'' then Inr example_conf
      else Inl (IOError ''No such file or directory''))"

definition template_module :: "raid_profile \<Rightarrow> OVHModule" where
  "template_module prof =
     \<lparr>check_mode = False,
      params = default_params\<lparr>p_service := ''template'', p_name := ''sv1'',
                 p_template := ''custom.yml''\<rparr>,
      client = template_gateway prof\<rparr>"

definition one_controller :: raid_profile where
  "one_controller =
     \<lparr>controllers = [\<lparr>disks = [\<lparr>names = [''c0:d0'', ''c0:d1'']\<rparr>]\<rparr>]\<rparr>"

definition two_disk_groups :: raid_profile where
  "two_disk_groups =
     \<lparr>controllers = [\<lparr>disks = [\<lparr>names = [''c0:d0'', ''c0:d1'']\<rparr>,
                              \<lparr>names = [''c0:d2'', ''c0:d3'']\<rparr>]\<rparr>]\<rparr>"

definition no_disk_group :: raid_profile where
  "no_disk_group = \<lparr>controllers = [\<lparr>disks = []\<rparr>]\<rparr>"

definition two_controllers :: raid_profile where
  "two_controllers =
     \<lparr>controllers = [\<lparr>disks = [\<lparr>names = [''c0:d0'', ''c0:d1'']\<rparr>]\<rparr>,
                     \<lparr>disks = [\<lparr>names = [''c1:d0'', ''c1:d1'']\<rparr>]\<rparr>]\<rparr>"

definition polling_gateway :: "(nat \<Rightarrow> string) \<Rightarrow> gateway" where
  "polling_gateway status_at = stub_gateway
     \<lparr>gw_get_ids := (\<lambda>h path kw.
         if path = ''/dedicated/server/sv1/task'' then Inr [41, 42]
         else Inl (ResourceNotFoundError ''This service does not exist'')),
      gw_get_task := (\<lambda>h path kw.
         Inr \<lparr>task_status =
               status_at (length (filter (\<lambda>e. e = Get ''/dedicated/server/sv1/task/42'' []) h))\<rparr>),
      gw_get_install_status := (\<lambda>h path kw.
         Inr \<lparr>is_message = None,
              is_progress = Some [\<lparr>pg_status = ''done'', pg_comment = ''Preparing installation''\<rparr>,
                                  \<lparr>pg_status = ''doing'', pg_comment = ''Partitioning disks''\<rparr>]\<rparr>)\<rparr>"

definition status_module :: "(nat \<Rightarrow> string) \<Rightarrow> string \<Rightarrow> string \<Rightarrow> OVHModule" where
  "status_module status_at retries delay =
     \<lparr>check_mode = False,
      params = default_params\<lparr>p_service := ''status'', p_name := ''sv1'',
                 p_max_retry := retries, p_sleep := delay\<rparr>,
      client = polling_gateway status_at\<rparr>"

fun flag_after :: "bool \<Rightarrow> trace \<Rightarrow> bool" where
  "flag_after flag [] = flag"
| "flag_after flag (Put path kw # h) =
     flag_after (case map_of kw ''monitoring'' of Some (JBool b) \<Rightarrow> b | _ \<Rightarrow> flag) h"
| "flag_after flag (e # h) = flag_after flag h"

definition monitoring_gateway :: "bool \<Rightarrow> gateway" where
  "monitoring_gateway flag = stub_gateway
     \<lparr>gw_get_server := (\<lambda>h path kw.
         if path = ''/dedicated/server/sv1''
         then Inr \<lparr>monitoring = flag_after flag h, bootId = 1, reverse = ''sv1.example.com''\<rparr>
         else Inl (ResourceNotFoundError ''This service does not exist'')),
      gw_put := (\<lambda>h path kw. Inr JNone)\<rparr>"

definition monitoring_module :: "bool \<Rightarrow> string \<Rightarrow> OVHModule" where
  "monitoring_module flag state =
     \<lparr>check_mode = False,
      params = default_params\<lparr>p_service := ''monitoring'', p_name := ''sv1'', p_state := state\<rparr>,
      client = monitoring_gateway flag\<rparr>"

definition monitoring_module_tries :: "bool \<Rightarrow> string \<Rightarrow> string \<Rightarrow> OVHModule" where
  "monitoring_module_tries flag state retries =
     \<lparr>check_mode = False,
      params = default_params\<lparr>p_service := ''monitoring'', p_name := ''sv1'', p_state := state,
                 p_max_retry := retries\<rparr>,
      client = monitoring_gateway flag\<rparr>"

definition boot_environment :: "int \<Rightarrow> environment" where
  "boot_environment current =
     \<lparr>python = plain_python, HAS_OVH = True, ovh_Client = Inr (boot_gateway current),
      yaml_load = (\<lambda>src. Inl (IOError ''No such file or directory''))\<rparr>"

text \<open>Modules on gateways that refuse one of the reads.\<close>

definition mac_module :: OVHModule where
  "mac_module =
     \<lparr>check_mode = False,
      params = default_params\<lparr>p_service := ''getmac'', p_name := ''sv1''\<rparr>,
      client = stub_gateway\<rparr>"

definition progress_down_module :: OVHModule where
  "progress_down_module =
     \<lparr>check_mode = False,
      params = default_params\<lparr>p_service := ''status'', p_name := ''sv1''\<rparr>,
      client = (polling_gateway (\<lambda>n. ''doing''))
        \<lparr>gw_get_install_status := (\<lambda>h path kw. Inl (APIError ''Internal server error''))\<rparr>\<rparr>"

definition profile_down_module :: OVHModule where
  "profile_down_module =
     \<lparr>check_mode = False,
      params = default_params\<lparr>p_service := ''template'', p_name := ''sv1'',
                 p_template := ''custom.yml''\<rparr>,
      client = (template_gateway one_controller)
        \<lparr>gw_get_raid_profile := (\<lambda>h path kw. Inl (APIError ''Internal server error''))\<rparr>\<rparr>"

section \<open>Evaluation helpers\<close>

lemmas client_defs =
  client_get_json_def client_get_ids_def client_get_names_def client_get_dns_record_def
  client_get_task_def client_get_install_status_def client_get_templates_def
  client_get_server_def client_get_reverse_def client_get_raid_profile_def
  client_get_interface_details_def client_post_def client_put_def client_delete_def

lemmas str_int_eval = str_int_def str_nat.simps digit_char_def

lemma python_reads:
  "py_int plain_python ''1'' = Inr 1"
  "py_int plain_python ''2'' = Inr 2"
  "py_int plain_python ''3'' = Inr 3"
  "py_int plain_python ''4'' = Inr 4"
  "py_int plain_python ''10'' = Inr 10"
  "py_float plain_python ''10'' = Inr 10"
  "py_float plain_python ''0.5'' = Inr (1 / 2)"
  "py_int plain_python ''0.5'' =
     Inl (ValueError (''invalid literal for int() with base 10: '0.5'' @ sq))"
  "0 \<le> secs \<Longrightarrow> py_sleep_refused plain_python secs = None"
  by (simp_all add: plain_python_def read_numeral_def read_fraction_def digit_of_def sq_def)

section \<open>DNS records\<close>

lemma dns_present_loop_frame:
  "filter is_mutating (snd (dns_present_loop self recs tr)) = filter is_mutating tr"
  by (induction recs arbitrary: tr) (auto simp: client_defs Let_def split: prod.splits sum.splits)

lemma dns_present_loop_unchanged:
  "fst (dns_present_loop self recs tr) \<noteq> Some (Return (None, True, r))"
  by (induction recs arbitrary: tr) (auto simp: client_defs Let_def except_APIError_def fail_def succeed_def split: prod.splits sum.splits if_splits)

lemma dns_present_loop_no_match:
  assumes "\<forall>h. \<forall>ind \<in> set recs. \<exists>record.
             gw_get_dns_record (client self) h
               (''/domain/zone/'' @ p_domain (params self) @ ''/record/'' @ str_int ind) [] = Inr record
             \<and> \<not> (subDomain record = p_name (params self) \<and> target record = p_ip (params self))"
  shows "fst (dns_present_loop self recs tr) = None"
  using assms
proof (induction recs arbitrary: tr)
  case Nil
  then show ?case by simp
next
  case (Cons ind rest)
  from Cons.prems obtain dnsrec where
    r: "gw_get_dns_record (client self) tr
          (''/domain/zone/'' @ p_domain (params self) @ ''/record/'' @ str_int ind) [] = Inr dnsrec"
    and n: "\<not> (subDomain dnsrec = p_name (params self) \<and> target dnsrec = p_ip (params self))"
    by (meson list.set_intros(1))
  have "fst (dns_present_loop self rest (tr @ [Get (''/domain/zone/'' @ p_domain (params self) @ ''/record/'' @ str_int ind) []])) = None"
    using Cons.IH Cons.prems by simp
  then show ?case using r n
    by (auto simp: client_defs Let_def)
qed

lemma dns_present_loop_some_match:
  assumes "\<forall>h. \<forall>ind \<in> set recs. \<exists>r.
             gw_get_dns_record (client self) h
               (''/domain/zone/'' @ p_domain (params self) @ ''/record/'' @ str_int ind) [] = Inr r"
    and "\<exists>ind \<in> set recs. \<forall>h r.
             gw_get_dns_record (client self) h
               (''/domain/zone/'' @ p_domain (params self) @ ''/record/'' @ str_int ind) [] = Inr r
             \<longrightarrow> subDomain r = p_name (params self) \<and> target r = p_ip (params self)"
  shows "fst (dns_present_loop self recs tr) =
           Some (Return (succeed (JStr (p_name (params self) @
                   '' is already registered in domain '' @ p_domain (params self)))
                 False JNone JNone))"
  using assms
proof (induction recs arbitrary: tr)
  case Nil
  then show ?case by simp
next
  case (Cons ind rest)
  from Cons.prems(1) obtain r where
    r: "gw_get_dns_record (client self) tr
          (''/domain/zone/'' @ p_domain (params self) @ ''/record/'' @ str_int ind) [] = Inr r"
    by (meson list.set_intros(1))
  show ?case
  proof (cases "subDomain r = p_name (params self) \<and> target r = p_ip (params self)")
    case True
    then show ?thesis using r by (simp add: client_defs Let_def)
  next
    case False
    then have "\<exists>j \<in> set rest. \<forall>h r.
             gw_get_dns_record (client self) h
               (''/domain/zone/'' @ p_domain (params self) @ ''/record/'' @ str_int j) [] = Inr r
             \<longrightarrow> subDomain r = p_name (params self) \<and> target r = p_ip (params self)"
      using Cons.prems(2) r by (metis set_ConsD)
    moreover have "\<forall>h. \<forall>j \<in> set rest. \<exists>r.
             gw_get_dns_record (client self) h
               (''/domain/zone/'' @ p_domain (params self) @ ''/record/'' @ str_int j) [] = Inr r"
      using Cons.prems(1) by simp
    ultimately have "fst (dns_present_loop self rest
        (tr @ [Get (''/domain/zone/'' @ p_domain (params self) @ ''/record/'' @ str_int ind) []])) =
           Some (Return (succeed (JStr (p_name (params self) @
                   '' is already registered in domain '' @ p_domain (params self)))
                 False JNone JNone))"
      using Cons.IH by blast
    then show ?thesis using r False by (auto simp: client_defs Let_def)
  qed
qed

text \<open>
  Claim C1, as amended. State present, not in check mode, a domain given, the name not
  \<^verbatim>\<open>refresh\<close>, and the zone query answers with two or more record ids. Then, whatever
  the wanted IP: no post, put or delete is issued; the outcome is never
  \<^verbatim>\<open>changed=True\<close>; and when an IP is given and every matching record can be fetched
  and none of them already has the wanted name and target, the outcome is the failure
  "More than one record match the name ..."; and when an IP is given and every matching
  record can be fetched and one of them already has the wanted name and target, the
  outcome is the success "... is already registered in domain ..." with
  \<^verbatim>\<open>changed=False\<close>: the loop over the records ends the method before the
  more-than-one check is reached.
\<close>

theorem change_dns_ambiguous:
  assumes "\<not> check_mode self"
    and "p_domain (params self) \<noteq> []"
    and "p_name (params self) \<noteq> ''refresh''"
    and "p_state (params self) = ''present''"
    and "gw_get_ids (client self) tr (''/domain/zone/'' @ p_domain (params self) @ ''/record'')
           [(''fieldType'', JStr ''A''), (''subDomain'', JStr (p_name (params self)))] = Inr existing_records"
    and "2 \<le> length existing_records"
  shows "filter is_mutating (snd (change_dns self tr)) = filter is_mutating tr
       \<and> (\<forall>r. fst (change_dns self tr) \<noteq> Return (None, True, r))
       \<and> (p_ip (params self) \<noteq> [] \<and>
          (\<forall>h. \<forall>ind \<in> set existing_records. \<exists>record.
              gw_get_dns_record (client self) h
                (''/domain/zone/'' @ p_domain (params self) @ ''/record/'' @ str_int ind) [] = Inr record
              \<and> \<not> (subDomain record = p_name (params self) \<and> target record = p_ip (params self)))
          \<longrightarrow> fst (change_dns self tr) =
                Return (fail (''More than one record match the name '' @ p_name (params self) @
                  '' in domain '' @ p_domain (params self) @
                  '', this module won't update all of these records.'')))
       \<and> (p_ip (params self) \<noteq> [] \<and>
          (\<forall>h. \<forall>ind \<in> set existing_records. \<exists>r.
              gw_get_dns_record (client self) h
                (''/domain/zone/'' @ p_domain (params self) @ ''/record/'' @ str_int ind) [] = Inr r) \<and>
          (\<exists>ind \<in> set existing_records. \<forall>h r.
              gw_get_dns_record (client self) h
                (''/domain/zone/'' @ p_domain (params self) @ ''/record/'' @ str_int ind) [] = Inr r
              \<longrightarrow> subDomain r = p_name (params self) \<and> target r = p_ip (params self))
          \<longrightarrow> fst (change_dns self tr) =
                Return (succeed
                  (JStr (p_name (params self) @ '' is already registered in domain '' @
                     p_domain (params self))) False JNone JNone))"
proof -
  let ?tr1 = "tr @ [Get (''/domain/zone/'' @ p_domain (params self) @ ''/record'')
           [(''fieldType'', JStr ''A''), (''subDomain'', JStr (p_name (params self)))]]"
  have ne: "existing_records \<noteq> []" and len: "length existing_records > 1"
    using assms(6) by auto
  obtain lr ltr where l: "dns_present_loop self existing_records ?tr1 = (lr, ltr)"
    by (cases "dns_present_loop self existing_records ?tr1")
  have fr: "filter is_mutating ltr = filter is_mutating tr"
    using dns_present_loop_frame[of self existing_records ?tr1] l by simp
  have un: "\<And>r. lr \<noteq> Some (Return (None, True, r))"
    using dns_present_loop_unchanged[of self existing_records ?tr1] l by simp
  have c: "change_dns self tr =
     (if p_ip (params self) = [] then (Return (fail ''Please give an IP to add your target''), ?tr1)
      else case lr of Some r \<Rightarrow> (r, ltr)
        | None \<Rightarrow> (Return (fail (''More than one record match the name '' @ p_name (params self) @
                  '' in domain '' @ p_domain (params self) @
                  '', this module won't update all of these records.'')), ltr))"
    using assms(1-5) ne len l
    by (simp add: change_dns_def client_defs Let_def)
  have 1: "filter is_mutating (snd (change_dns self tr)) = filter is_mutating tr"
    using fr by (simp add: c split: option.splits)
  have 2: "\<forall>r. fst (change_dns self tr) \<noteq> Return (None, True, r)"
    using un by (auto simp add: c fail_def split: option.splits)
  have 3: "p_ip (params self) \<noteq> [] \<and>
          (\<forall>h. \<forall>ind \<in> set existing_records. \<exists>record.
              gw_get_dns_record (client self) h
                (''/domain/zone/'' @ p_domain (params self) @ ''/record/'' @ str_int ind) [] = Inr record
              \<and> \<not> (subDomain record = p_name (params self) \<and> target record = p_ip (params self)))
          \<longrightarrow> fst (change_dns self tr) =
                Return (fail (''More than one record match the name '' @ p_name (params self) @
                  '' in domain '' @ p_domain (params self) @
                  '', this module won't update all of these records.''))"
  proof (intro impI, elim conjE)
    assume ip: "p_ip (params self) \<noteq> []"
      and a: "\<forall>h. \<forall>ind \<in> set existing_records. \<exists>record.
              gw_get_dns_record (client self) h
                (''/domain/zone/'' @ p_domain (params self) @ ''/record/'' @ str_int ind) [] = Inr record
              \<and> \<not> (subDomain record = p_name (params self) \<and> target record = p_ip (params self))"
    have "lr = None" using dns_present_loop_no_match[OF a, of ?tr1] l by simp
    then show "fst (change_dns self tr) =
                Return (fail (''More than one record match the name '' @ p_name (params self) @
                  '' in domain '' @ p_domain (params self) @
                  '', this module won't update all of these records.''))"
      using ip by (simp add: c)
  qed
  have 4: "p_ip (params self) \<noteq> [] \<and>
          (\<forall>h. \<forall>ind \<in> set existing_records. \<exists>r.
              gw_get_dns_record (client self) h
                (''/domain/zone/'' @ p_domain (params self) @ ''/record/'' @ str_int ind) [] = Inr r) \<and>
          (\<exists>ind \<in> set existing_records. \<forall>h r.
              gw_get_dns_record (client self) h
                (''/domain/zone/'' @ p_domain (params self) @ ''/record/'' @ str_int ind) [] = Inr r
              \<longrightarrow> subDomain r = p_name (params self) \<and> target r = p_ip (params self))
          \<longrightarrow> fst (change_dns self tr) =
                Return (succeed
                  (JStr (p_name (params self) @ '' is already registered in domain '' @
                     p_domain (params self))) False JNone JNone)"
  proof (intro impI, elim conjE)
    assume ip: "p_ip (params self) \<noteq> []"
      and a: "\<forall>h. \<forall>ind \<in> set existing_records. \<exists>r.
              gw_get_dns_record (client self) h
                (''/domain/zone/'' @ p_domain (params self) @ ''/record/'' @ str_int ind) [] = Inr r"
      and s: "\<exists>ind \<in> set existing_records. \<forall>h r.
              gw_get_dns_record (client self) h
                (''/domain/zone/'' @ p_domain (params self) @ ''/record/'' @ str_int ind) [] = Inr r
              \<longrightarrow> subDomain r = p_name (params self) \<and> target r = p_ip (params self)"
    have "lr = Some (Return (succeed
                    (JStr (p_name (params self) @ '' is already registered in domain '' @
                       p_domain (params self))) False JNone JNone))"
      using dns_present_loop_some_match [OF a s, of ?tr1] l by simp
    then show "fst (change_dns self tr) =
                  Return (succeed
                    (JStr (p_name (params self) @ '' is already registered in domain '' @
                       p_domain (params self))) False JNone JNone)"
      using ip by (simp add: c)
  qed
  from 1 2 3 4 show ?thesis by blast
qed

text \<open>
  The theorem at work: two records \<open>www\<close> with other targets, wanted IP 192.0.2.1.
\<close>

theorem change_dns_ambiguous_witness:
  "fst (change_dns (dns_module ''192.0.2.1'') []) =
     Return (fail ''More than one record match the name www in domain example.com, this module won't update all of these records.'')
   \<and> filter is_mutating (snd (change_dns (dns_module ''192.0.2.1'') [])) = []"
  using change_dns_ambiguous [of "dns_module ''192.0.2.1''" "[]" "[1, 2]"]
  by (simp add: dns_module_def dns_gateway_def stub_gateway_def default_params_def str_int_eval)

text \<open>
  Claim C1 as stated fails: the same two records, wanted IP 192.0.2.10, the target of the
  first one. The zone query answers with two ids and the outcome is a success with
  \<^verbatim>\<open>changed=False\<close>, not a failure.
\<close>

theorem change_dns_ambiguous_counterexample:
  "gw_get_ids (client (dns_module ''192.0.2.10'')) [] ''/domain/zone/example.com/record''
     [(''fieldType'', JStr ''A''), (''subDomain'', JStr ''www'')] = Inr [1, 2]
   \<and> fst (change_dns (dns_module ''192.0.2.10'') []) =
       Return (None, False, [(''msg'', JStr ''www is already registered in domain example.com'')])
   \<and> \<not> (\<exists>m. fst (change_dns (dns_module ''192.0.2.10'') []) = Return (fail m))"
  by (simp add: change_dns_def client_defs Let_def dns_module_def dns_gateway_def stub_gateway_def
        default_params_def str_int_eval succeed_def fail_def)

section \<open>Boot mode\<close>

text \<open>
  Claim C10. Outside check mode, the mutating calls of \<^verbatim>\<open>change_boot_dedicated\<close> are
  decided by the server read: when the wanted boot id differs from the current
  \<^verbatim>\<open>bootId\<close>, exactly one put of \<^verbatim>\<open>bootId\<close> is issued and nothing else, whatever
  \<^verbatim>\<open>force_reboot\<close> is; when they are equal, the post to the reboot endpoint is issued
  if and only if \<^verbatim>\<open>force_reboot\<close> is set; when the read fails, nothing is issued.
\<close>

theorem change_boot_dedicated_mutations:
  assumes "\<not> check_mode self"
  shows "filter is_mutating (snd (change_boot_dedicated self tr)) =
     filter is_mutating tr @
     (case gw_get_server (client self) tr (''/dedicated/server/'' @ p_name (params self)) [] of
        Inl e \<Rightarrow> []
      | Inr check \<Rightarrow>
         (case bootid (p_boot (params self)) of
            Inl e \<Rightarrow> []
          | Inr wanted \<Rightarrow>
              if wanted \<noteq> bootId check
              then [Put (''/dedicated/server/'' @ p_name (params self)) [(''bootId'', JInt wanted)]]
              else if p_force_reboot (params self)
              then [Post (''/dedicated/server/'' @ p_name (params self) @ ''/reboot'') []]
              else []))"
  using assms
  by (simp add: change_boot_dedicated_def client_defs Let_def split: sum.splits)

text \<open>
  The theorem at work on server sv1: boot id 1 and wanted rescue (1122) with
  \<^verbatim>\<open>force_reboot\<close>: one put, no reboot; boot id already 1122: the reboot post with
  \<^verbatim>\<open>force_reboot\<close>, nothing without it.
\<close>

theorem change_boot_dedicated_mutations_witness:
  "filter is_mutating (snd (change_boot_dedicated (boot_module 1 ''rescue'' True) [])) =
     [Put ''/dedicated/server/sv1'' [(''bootId'', JInt 1122)]]
   \<and> filter is_mutating (snd (change_boot_dedicated (boot_module 1122 ''rescue'' True) [])) =
     [Post ''/dedicated/server/sv1/reboot'' []]
   \<and> filter is_mutating (snd (change_boot_dedicated (boot_module 1122 ''rescue'' False) [])) = []"
  using change_boot_dedicated_mutations [of "boot_module 1 ''rescue'' True" "[]"]
    change_boot_dedicated_mutations [of "boot_module 1122 ''rescue'' True" "[]"]
    change_boot_dedicated_mutations [of "boot_module 1122 ''rescue'' False" "[]"]
  by (simp add: boot_module_def boot_gateway_def stub_gateway_def default_params_def bootid_def)

section \<open>Vrack membership\<close>

text \<open>
  Claim C7. State present, outside check mode, and the probe of
  \<^verbatim>\<open>virtualNetworkInterface\<close> answers with the empty list. Then the legacy list
  \<^verbatim>\<open>/vrack/{vrack}/dedicatedServer\<close> is read next, whatever happens afterwards, and the
  four cases of that read are all there is. The read is refused: the method ends there
  with the failure (or the exception) and nothing is posted. The server name is in the
  list: the outcome is "already registered" with \<^verbatim>\<open>changed=False\<close> and nothing is posted.
  The name is not in the list: exactly one post to the legacy endpoint follows the read,
  and the outcome is \<^verbatim>\<open>changed=True\<close> with the answer of the post when it is accepted, the
  failure when it is refused. So a post is issued only after the legacy list was read and
  did not contain the server.
\<close>

theorem change_vrack_legacy_fallback:
  assumes "\<not> check_mode self"
    and "p_vrack (params self) \<noteq> []"
    and "p_state (params self) = ''present''"
    and "gw_get_names (client self) tr
           (''/dedicated/server/'' @ p_name (params self) @ ''/virtualNetworkInterface'')
           [(''mode'', JStr ''vrack'')] = Inr []"
  shows "(\<forall>e.
            gw_get_names (client self)
              (tr @ [Get (''/dedicated/server/'' @ p_name (params self) @ ''/virtualNetworkInterface'')
                       [(''mode'', JStr ''vrack'')]])
              (''/vrack/'' @ p_vrack (params self) @ ''/dedicatedServer'') [] = Inl e
            \<longrightarrow> change_vrack self tr =
                  (except_APIError e,
                   tr @ [Get (''/dedicated/server/'' @ p_name (params self) @ ''/virtualNetworkInterface'')
                           [(''mode'', JStr ''vrack'')],
                         Get (''/vrack/'' @ p_vrack (params self) @ ''/dedicatedServer'') []]))
       \<and> (\<forall>members.
            gw_get_names (client self)
              (tr @ [Get (''/dedicated/server/'' @ p_name (params self) @ ''/virtualNetworkInterface'')
                       [(''mode'', JStr ''vrack'')]])
              (''/vrack/'' @ p_vrack (params self) @ ''/dedicatedServer'') [] = Inr members
            \<and> p_name (params self) \<in> set members
            \<longrightarrow> change_vrack self tr =
                  (Return (succeed
                     (JStr (p_name (params self) @ '' is already registered on '' @
                        p_vrack (params self))) False JNone JNone),
                   tr @ [Get (''/dedicated/server/'' @ p_name (params self) @ ''/virtualNetworkInterface'')
                           [(''mode'', JStr ''vrack'')],
                         Get (''/vrack/'' @ p_vrack (params self) @ ''/dedicatedServer'') []]))
       \<and> (\<forall>members result2.
            gw_get_names (client self)
              (tr @ [Get (''/dedicated/server/'' @ p_name (params self) @ ''/virtualNetworkInterface'')
                       [(''mode'', JStr ''vrack'')]])
              (''/vrack/'' @ p_vrack (params self) @ ''/dedicatedServer'') [] = Inr members
            \<and> p_name (params self) \<notin> set members
            \<and> gw_post (client self)
                (tr @ [Get (''/dedicated/server/'' @ p_name (params self) @ ''/virtualNetworkInterface'')
                         [(''mode'', JStr ''vrack'')],
                       Get (''/vrack/'' @ p_vrack (params self) @ ''/dedicatedServer'') []])
                (''/vrack/'' @ p_vrack (params self) @ ''/dedicatedServer'')
                [(''dedicatedServer'', JStr (p_name (params self)))] = Inr result2
            \<longrightarrow> change_vrack self tr =
                  (Return (None, True, if result2 \<noteq> JNone then [(''contents'', result2)] else []),
                   tr @ [Get (''/dedicated/server/'' @ p_name (params self) @ ''/virtualNetworkInterface'')
                           [(''mode'', JStr ''vrack'')],
                         Get (''/vrack/'' @ p_vrack (params self) @ ''/dedicatedServer'') [],
                         Post (''/vrack/'' @ p_vrack (params self) @ ''/dedicatedServer'')
                           [(''dedicatedServer'', JStr (p_name (params self)))]]))
       \<and> (\<forall>members e.
            gw_get_names (client self)
              (tr @ [Get (''/dedicated/server/'' @ p_name (params self) @ ''/virtualNetworkInterface'')
                       [(''mode'', JStr ''vrack'')]])
              (''/vrack/'' @ p_vrack (params self) @ ''/dedicatedServer'') [] = Inr members
            \<and> p_name (params self) \<notin> set members
            \<and> gw_post (client self)
                (tr @ [Get (''/dedicated/server/'' @ p_name (params self) @ ''/virtualNetworkInterface'')
                         [(''mode'', JStr ''vrack'')],
                       Get (''/vrack/'' @ p_vrack (params self) @ ''/dedicatedServer'') []])
                (''/vrack/'' @ p_vrack (params self) @ ''/dedicatedServer'')
                [(''dedicatedServer'', JStr (p_name (params self)))] = Inl e
            \<longrightarrow> change_vrack self tr =
                  (except_APIError e,
                   tr @ [Get (''/dedicated/server/'' @ p_name (params self) @ ''/virtualNetworkInterface'')
                           [(''mode'', JStr ''vrack'')],
                         Get (''/vrack/'' @ p_vrack (params self) @ ''/dedicatedServer'') [],
                         Post (''/vrack/'' @ p_vrack (params self) @ ''/dedicatedServer'')
                           [(''dedicatedServer'', JStr (p_name (params self)))]]))"
  using assms
  by (simp add: change_vrack_def client_defs Let_def succeed_def)

text \<open>
  The theorem at work: the legacy list is refused; sv1 is in it; sv1 is not in it and the
  post answers with a task; sv1 is not in it and the post answers with \<^verbatim>\<open>None\<close>.
\<close>

theorem change_vrack_legacy_fallback_witness:
  "change_vrack (vrack_module (Inl (APIError ''Internal server error'')) vrack_task) [] =
     (Return (Some ''Failed to call OVH API: Internal server error'', False, []),
      [Get ''/dedicated/server/sv1/virtualNetworkInterface'' [(''mode'', JStr ''vrack'')],
       Get ''/vrack/pn-1234/dedicatedServer'' []])
   \<and> change_vrack (vrack_module (Inr [''sv0'', ''sv1'']) vrack_task) [] =
     (Return (None, False, [(''msg'', JStr ''sv1 is already registered on pn-1234'')]),
      [Get ''/dedicated/server/sv1/virtualNetworkInterface'' [(''mode'', JStr ''vrack'')],
       Get ''/vrack/pn-1234/dedicatedServer'' []])
   \<and> change_vrack (vrack_module (Inr [''sv0'']) vrack_task) [] =
     (Return (None, True, [(''contents'', vrack_task)]),
      [Get ''/dedicated/server/sv1/virtualNetworkInterface'' [(''mode'', JStr ''vrack'')],
       Get ''/vrack/pn-1234/dedicatedServer'' [],
       Post ''/vrack/pn-1234/dedicatedServer'' [(''dedicatedServer'', JStr ''sv1'')]])
   \<and> change_vrack (vrack_module (Inr [''sv0'']) JNone) [] =
     (Return (None, True, []),
      [Get ''/dedicated/server/sv1/virtualNetworkInterface'' [(''mode'', JStr ''vrack'')],
       Get ''/vrack/pn-1234/dedicatedServer'' [],
       Post ''/vrack/pn-1234/dedicatedServer'' [(''dedicatedServer'', JStr ''sv1'')]])"
  using
    change_vrack_legacy_fallback
      [of "vrack_module (Inl (APIError ''Internal server error'')) vrack_task" "[]"]
    change_vrack_legacy_fallback [of "vrack_module (Inr [''sv0'', ''sv1'']) vrack_task" "[]"]
    change_vrack_legacy_fallback [of "vrack_module (Inr [''sv0'']) vrack_task" "[]"]
    change_vrack_legacy_fallback [of "vrack_module (Inr [''sv0'']) JNone" "[]"]
  by (simp add: vrack_module_def vrack_gateway_def vrack_task_def stub_gateway_def
        default_params_def succeed_def except_APIError_def fail_def)

section \<open>Template creation with hardware RAID\<close>

text \<open>
  The RAID block of template creation once the profile has been read. A number of
  controllers other than one gives the failure, with nothing after the read. One controller
  gives one post, whose disks are the names of the first entry of that controller's
  \<^verbatim>\<open>disks\<close> list; the other entries are not read.
\<close>

lemma template_hardware_raid_posts:
  assumes "gw_get_raid_profile (client self) tr
             (''/dedicated/server/'' @ p_name (params self) @ ''/install/hardwareRaidProfile'') [] = Inr prof"
    and "isHardwareRaid conf"
  shows "(length (controllers prof) \<noteq> 1 \<longrightarrow>
            template_hardware_raid self conf tr =
              (Some (Return (fail ''Failed to call OVH API: {0} Code can't handle more than one controller when using Hardware Raid setups'')),
               tr @ [Get (''/dedicated/server/'' @ p_name (params self) @ ''/install/hardwareRaidProfile'') []]))
       \<and> (\<forall>c first_group groups. controllers prof = [c] \<and> disks c = first_group # groups \<longrightarrow>
            snd (template_hardware_raid self conf tr) =
              tr @ [Get (''/dedicated/server/'' @ p_name (params self) @ ''/install/hardwareRaidProfile'') [],
                    Post (raid_post_path conf)
                      [(''disks'', JList (map JStr (names first_group))),
                       (''mode'', raidMode conf),
                       (''name'', JStr (partitionScheme conf)),
                       (''step'', JInt 1)]])
       \<and> (\<forall>c. controllers prof = [c] \<and> disks c = [] \<longrightarrow>
            template_hardware_raid self conf tr =
              (Some (Raise (IndexError ''list index out of range'')),
               tr @ [Get (''/dedicated/server/'' @ p_name (params self) @ ''/install/hardwareRaidProfile'') []]))"
  using assms
  by (auto simp: template_hardware_raid_def client_defs Let_def raid_post_path_def
        split: sum.splits list.splits)

lemmas template_example_defs =
  template_module_def template_gateway_def stub_gateway_def default_params_def
  example_yaml_def example_conf_def one_controller_def two_controllers_def
  two_disk_groups_def no_disk_group_def

text \<open>
  Claim C9 fails on the code where the single controller does not list its disks in one
  entry. Template creation (state present, outside check mode) from a file that asks for
  hardware RAID, every write accepted. The profile has one controller with two disk
  entries, c0:d0, c0:d1 and c0:d2, c0:d3: the one RAID grouping that is posted carries
  c0:d0 and c0:d1 only, though the comment in the code says that all the disks of the
  controller are taken. The profile has one controller with no disk entry: the method ends in
  \<^verbatim>\<open>IndexError\<close> and posts no RAID grouping. The first half of the claim holds on the
  example with two controllers: the outcome is the failure and no RAID grouping is posted.
\<close>

theorem generate_template_first_disk_group:
  "filter (is_post_to (raid_post_path example_conf))
       (snd (generate_template example_yaml (template_module two_disk_groups) [])) =
     [Post ''/me/installationTemplate/custom/partitionScheme/custom/hardwareRaid''
        [(''disks'', JList [JStr ''c0:d0'', JStr ''c0:d1'']), (''mode'', JStr ''raid1''),
         (''name'', JStr ''custom''), (''step'', JInt 1)]]
   \<and> fst (generate_template example_yaml (template_module no_disk_group) []) =
       Raise (IndexError ''list index out of range'')
   \<and> filter (is_post_to (raid_post_path example_conf))
       (snd (generate_template example_yaml (template_module no_disk_group) [])) = []
   \<and> fst (generate_template example_yaml (template_module two_controllers) []) =
       Return (fail ''Failed to call OVH API: {0} Code can't handle more than one controller when using Hardware Raid setups'')
   \<and> filter (is_post_to (raid_post_path example_conf))
       (snd (generate_template example_yaml (template_module two_controllers) [])) = []"
  by (simp add: generate_template_def template_create_def template_hardware_raid_def
        client_defs template_example_defs raid_post_path_def except_APIError_def)

section \<open>Polling the installation status\<close>

lemma py_max_nonempty: "xs \<noteq> [] \<Longrightarrow> \<exists>m. py_max xs = Inr m"
  by (cases xs) (simp_all add: py_max_def)

lemma status_loop_never_done:
  assumes ids: "\<forall>h. \<exists>tasklist. gw_get_ids (client self) h
                  (''/dedicated/server/'' @ p_name (params self) @ ''/task'')
                  [(''function'', JStr ''reinstallServer'')] = Inr tasklist \<and> tasklist \<noteq> []"
    and task: "\<forall>h path. \<exists>result. gw_get_task (client self) h path [] = Inr result
                  \<and> \<not> str_contains (task_status result) ''done''"
    and prog: "\<forall>h. \<exists>st message. gw_get_install_status (client self) h
                  (''/dedicated/server/'' @ p_name (params self) @ ''/install/status'') [] = Inr st
                  \<and> progress_message st = Inr message"
    and retries: "py_int py (p_max_retry (params self)) = Inr n"
    and delay: "py_float py (p_sleep (params self)) = Inr secs"
    and sleep: "py_sleep_refused py secs = None"
  shows "fst (status_loop py self is tr) = None
       \<and> filter is_sleep (snd (status_loop py self is tr)) =
           filter is_sleep tr @ replicate (length is) (Sleep secs)
       \<and> filter is_mutating (snd (status_loop py self is tr)) = filter is_mutating tr"
proof (induction "is" arbitrary: tr)
  case Nil
  then show ?case by simp
next
  case (Cons i rest)
  let ?tr0 = "tr @ [Display (str_int i @ '' out of '' @ str_int n)]"
  let ?p1 = "''/dedicated/server/'' @ p_name (params self) @ ''/task''"
  let ?tr1 = "?tr0 @ [Get ?p1 [(''function'', JStr ''reinstallServer'')]]"
  obtain tasklist where tk: "gw_get_ids (client self) ?tr0 ?p1
      [(''function'', JStr ''reinstallServer'')] = Inr tasklist" and ne: "tasklist \<noteq> []"
    using ids by blast
  obtain m where m: "py_max tasklist = Inr m" using py_max_nonempty [OF ne] by blast
  let ?p2 = "''/dedicated/server/'' @ p_name (params self) @ ''/task/'' @ str_int m"
  let ?tr2 = "?tr1 @ [Get ?p2 []]"
  obtain result where res: "gw_get_task (client self) ?tr1 ?p2 [] = Inr result"
    and nd: "\<not> str_contains (task_status result) ''done''"
    using task by blast
  let ?p3 = "''/dedicated/server/'' @ p_name (params self) @ ''/install/status''"
  let ?tr3 = "?tr2 @ [Get ?p3 []]"
  obtain st message where st: "gw_get_install_status (client self) ?tr2 ?p3 [] = Inr st"
    and msg: "progress_message st = Inr message"
    using prog by blast
  let ?tr4 = "?tr3 @ [Display (task_status result @ '': '' @ message), Sleep secs]"
  have step: "status_loop py self (i # rest) tr = status_loop py self rest ?tr4"
    using tk m res nd st msg retries delay sleep
    by (simp add: client_defs Let_def time_sleep_def)
  show ?case
    unfolding step using Cons.IH [of ?tr4]
    by (simp add: replicate_append_same)
qed

lemma py_range_1:
  assumes "2 \<le> n"
  shows "py_range 1 n \<noteq> []" and "last (py_range 1 n) = n - 1"
    and "length (py_range 1 n) = nat (n - 1)"
proof -
  have "[1..n - 1] = [1..n - 1 - 1] @ [n - 1]"
    using assms by (intro upto_rec2) simp
  then show "py_range 1 n \<noteq> []" and "last (py_range 1 n) = n - 1"
    by (simp_all add: py_range_def)
  show "length (py_range 1 n) = nat (n - 1)"
    by (simp add: py_range_def)
qed

text \<open>
  The poll that never sees "done", for every number of tries. Outside check mode,
  \<^verbatim>\<open>int(max_retry)\<close> is \<open>n \<ge> 2\<close>, \<^verbatim>\<open>float(sleep)\<close> is a length that \<^verbatim>\<open>time.sleep\<close> accepts,
  \<^verbatim>\<open>int(sleep)\<close> is \<open>s\<close>, the task list is never empty, the task status never contains
  "done" and the progress report can always be read. Then the poll sleeps \<open>n - 1\<close> times,
  issues no write, and fails with "Max wait time reached, about \<open>n - 1\<close> x \<open>s\<close> seconds".
\<close>

lemma get_status_install_never_done:
  assumes "\<not> check_mode self"
    and "p_name (params self) \<noteq> []"
    and "py_int py (p_max_retry (params self)) = Inr n"
    and "2 \<le> n"
    and "py_float py (p_sleep (params self)) = Inr secs"
    and "py_sleep_refused py secs = None"
    and "py_int py (p_sleep (params self)) = Inr s"
    and "\<forall>h. \<exists>tasklist. gw_get_ids (client self) h
                  (''/dedicated/server/'' @ p_name (params self) @ ''/task'')
                  [(''function'', JStr ''reinstallServer'')] = Inr tasklist \<and> tasklist \<noteq> []"
    and "\<forall>h path. \<exists>result. gw_get_task (client self) h path [] = Inr result
                  \<and> \<not> str_contains (task_status result) ''done''"
    and "\<forall>h. \<exists>st message. gw_get_install_status (client self) h
                  (''/dedicated/server/'' @ p_name (params self) @ ''/install/status'') [] = Inr st
                  \<and> progress_message st = Inr message"
  shows "fst (get_status_install py self tr) =
           Return (fail (''Max wait time reached, about '' @
                     str_int (n - 1) @ '' x '' @ str_int s @ '' seconds''))
       \<and> filter is_sleep (snd (get_status_install py self tr)) =
           filter is_sleep tr @ replicate (nat (n - 1)) (Sleep secs)
       \<and> filter is_mutating (snd (get_status_install py self tr)) = filter is_mutating tr"
proof -
  let ?is = "py_range 1 n"
  obtain r tr' where l: "status_loop py self ?is tr = (r, tr')"
    by (cases "status_loop py self ?is tr")
  have "r = None"
    and "filter is_sleep tr' = filter is_sleep tr @ replicate (length ?is) (Sleep secs)"
    and "filter is_mutating tr' = filter is_mutating tr"
    using status_loop_never_done [OF assms(8,9,10,3,5,6), of ?is tr] l by simp_all
  then show ?thesis
    using assms(1,2,3,7) l py_range_1 [OF assms(4)]
    by (simp add: get_status_install_def Let_def)
qed

lemmas status_example_defs =
  status_module_def polling_gateway_def stub_gateway_def default_params_def

text \<open>
  Claim C5 fails on the code. The status is "doing" for ever and \<^verbatim>\<open>max_retry\<close> is
  \<^verbatim>\<open>'3'\<close>. With \<^verbatim>\<open>sleep\<close> \<^verbatim>\<open>'10'\<close> the poll sleeps twice and returns the failure "Max
  wait time reached, about 2 x 10 seconds": the message cites 2, the last value of the
  loop variable of \<^verbatim>\<open>range(1, int(max_retry))\<close>, where the claim has it cite the 3 attempts
  asked for. With \<^verbatim>\<open>sleep\<close> \<^verbatim>\<open>'0.5'\<close> the poll sleeps twice for half a second and then
  returns no failure at all: \<^verbatim>\<open>int(sleep)\<close> in the message raises \<^verbatim>\<open>ValueError\<close> on the
  string that \<^verbatim>\<open>float(sleep)\<close> accepted.
\<close>

theorem get_status_install_exhausted_message:
  "filter is_sleep (snd (get_status_install plain_python
        (status_module (\<lambda>n. ''doing'') ''3'' ''10'') [])) = [Sleep 10, Sleep 10]
   \<and> fst (get_status_install plain_python
          (status_module (\<lambda>n. ''doing'') ''3'' ''10'') []) =
       Return (fail ''Max wait time reached, about 2 x 10 seconds'')
   \<and> filter is_sleep (snd (get_status_install plain_python
        (status_module (\<lambda>n. ''doing'') ''3'' ''0.5'') [])) = [Sleep (1 / 2), Sleep (1 / 2)]
   \<and> fst (get_status_install plain_python
          (status_module (\<lambda>n. ''doing'') ''3'' ''0.5'') []) =
       Raise (ValueError (''invalid literal for int() with base 10: '0.5'' @ sq))"
  by (simp add: get_status_install_def Let_def py_range_def upto.simps client_defs
        status_example_defs py_max_def progress_message_def time_sleep_def str_int_eval
        python_reads fail_def)

text \<open>
  Claim C6 fails on the code. The status is "done" from the first fetch on (\<open>k = 0\<close>) and
  \<^verbatim>\<open>max_retry\<close> is 1: \<^verbatim>\<open>range(1, 1)\<close> is empty, no fetch is made and the method ends in
  \<^verbatim>\<open>UnboundLocalError\<close> on \<open>i\<close>. The status is "doing" once and then "done"
  (\<open>k = 1\<close>) and \<^verbatim>\<open>max_retry\<close> is 2: one fetch is made, one sleep, and the method fails
  with "Max wait time reached".
\<close>

theorem get_status_install_one_attempt_short:
  "get_status_install plain_python
       (status_module (\<lambda>n. if n < 0 then ''doing'' else ''done'') ''1'' ''10'') [] =
     (Raise (UnboundLocalError ''i''), [])
   \<and> fst (get_status_install plain_python
          (status_module (\<lambda>n. if n < 1 then ''doing'' else ''done'') ''2'' ''10'') []) =
     Return (fail ''Max wait time reached, about 1 x 10 seconds'')
   \<and> filter is_get (snd (get_status_install plain_python
        (status_module (\<lambda>n. if n < 1 then ''doing'' else ''done'') ''2'' ''10'') [])) =
     [Get ''/dedicated/server/sv1/task'' [(''function'', JStr ''reinstallServer'')],
      Get ''/dedicated/server/sv1/task/42'' [],
      Get ''/dedicated/server/sv1/install/status'' []]"
  by (simp add: get_status_install_def Let_def py_range_def upto.simps client_defs
        status_example_defs py_max_def progress_message_def time_sleep_def str_int_eval
        python_reads)

lemma starts_with_append [simp]: "starts_with (a @ x) (a @ y) = starts_with x y"
  by (induction a) simp_all

text \<open>
  The other side of claim C6: where the code does succeed. The task status does not
  contain "done" on the first \<open>k\<close> fetches of a task and contains it from fetch \<open>k + 1\<close>
  on, every other read of the poll succeeds, \<^verbatim>\<open>int(max_retry)\<close> is at least \<open>k + 2\<close> and
  the sleep is accepted.
  Then the poll returns the success after exactly \<open>k + 1\<close> task fetches and \<open>k\<close> sleeps.
\<close>

lemma status_loop_done_after:
  assumes ids: "\<forall>h. \<exists>tasklist. gw_get_ids (client self) h
                  (''/dedicated/server/'' @ p_name (params self) @ ''/task'')
                  [(''function'', JStr ''reinstallServer'')] = Inr tasklist \<and> tasklist \<noteq> []"
    and task: "\<forall>h path. \<exists>result. gw_get_task (client self) h path [] = Inr result
                  \<and> (str_contains (task_status result) ''done'' \<longleftrightarrow>
                       k \<le> length (filter (is_task_fetch (p_name (params self))) h))"
    and prog: "\<forall>h. \<exists>st message. gw_get_install_status (client self) h
                  (''/dedicated/server/'' @ p_name (params self) @ ''/install/status'') [] = Inr st
                  \<and> progress_message st = Inr message"
    and retries: "py_int py (p_max_retry (params self)) = Inr n"
    and delay: "py_float py (p_sleep (params self)) = Inr secs"
    and sleep: "py_sleep_refused py secs = None"
  shows "length (filter (is_task_fetch (p_name (params self))) tr) = c \<Longrightarrow> c \<le> k \<Longrightarrow>
         k - c < length is \<Longrightarrow>
         (\<exists>st. fst (status_loop py self is tr) =
                 Some (Return (succeed (JStr (st @ '': '')) False JNone JNone))
               \<and> str_contains st ''done'')
         \<and> length (filter (is_task_fetch (p_name (params self))) (snd (status_loop py self is tr))) = k + 1
         \<and> length (filter is_sleep (snd (status_loop py self is tr))) =
             length (filter is_sleep tr) + (k - c)"
proof (induction "is" arbitrary: tr c)
  case Nil
  then show ?case by simp
next
  case (Cons i rest)
  let ?F = "is_task_fetch (p_name (params self))"
  let ?tr0 = "tr @ [Display (str_int i @ '' out of '' @ str_int n)]"
  let ?p1 = "''/dedicated/server/'' @ p_name (params self) @ ''/task''"
  let ?tr1 = "?tr0 @ [Get ?p1 [(''function'', JStr ''reinstallServer'')]]"
  obtain tasklist where tk: "gw_get_ids (client self) ?tr0 ?p1
      [(''function'', JStr ''reinstallServer'')] = Inr tasklist" and ne: "tasklist \<noteq> []"
    using ids by blast
  obtain m where m: "py_max tasklist = Inr m" using py_max_nonempty [OF ne] by blast
  let ?p2 = "''/dedicated/server/'' @ p_name (params self) @ ''/task/'' @ str_int m"
  let ?tr2 = "?tr1 @ [Get ?p2 []]"
  have c1: "length (filter ?F ?tr1) = c"
    using Cons.prems(1) by simp
  have c2: "length (filter ?F ?tr2) = c + 1"
    using c1 by simp
  obtain result where res: "gw_get_task (client self) ?tr1 ?p2 [] = Inr result"
    and dn: "str_contains (task_status result) ''done'' \<longleftrightarrow> k \<le> c"
    using task c1 by metis
  show ?case
  proof (cases "k \<le> c")
    case True
    then have kc: "k = c" using Cons.prems(2) by simp
    have "status_loop py self (i # rest) tr =
            (Some (Return (succeed (JStr (task_status result @ '': '')) False JNone JNone)), ?tr2)"
      using tk m res dn True retries by (simp add: client_defs Let_def)
    then show ?thesis
      using c2 kc dn True by auto
  next
    case False
    let ?p3 = "''/dedicated/server/'' @ p_name (params self) @ ''/install/status''"
    let ?tr3 = "?tr2 @ [Get ?p3 []]"
    obtain st message where st: "gw_get_install_status (client self) ?tr2 ?p3 [] = Inr st"
      and msg: "progress_message st = Inr message"
      using prog by blast
    let ?tr4 = "?tr3 @ [Display (task_status result @ '': '' @ message), Sleep secs]"
    have step: "status_loop py self (i # rest) tr = status_loop py self rest ?tr4"
      using tk m res dn False st msg retries delay sleep
      by (simp add: client_defs Let_def time_sleep_def)
    have c4: "length (filter ?F ?tr4) = c + 1"
      using c2 by simp
    have s4: "length (filter is_sleep ?tr4) = length (filter is_sleep tr) + 1"
      by simp
    have "c + 1 \<le> k" "k - (c + 1) < length rest"
      using False Cons.prems(3) by auto
    from Cons.IH [OF c4 this] show ?thesis
      unfolding step s4 using False by auto
  qed
qed

lemma get_status_install_done_after:
  assumes "\<not> check_mode self"
    and "p_name (params self) \<noteq> []"
    and "py_int py (p_max_retry (params self)) = Inr n"
    and "int k + 2 \<le> n"
    and "py_float py (p_sleep (params self)) = Inr secs"
    and "py_sleep_refused py secs = None"
    and "\<forall>h. \<exists>tasklist. gw_get_ids (client self) h
                  (''/dedicated/server/'' @ p_name (params self) @ ''/task'')
                  [(''function'', JStr ''reinstallServer'')] = Inr tasklist \<and> tasklist \<noteq> []"
    and "\<forall>h path. \<exists>result. gw_get_task (client self) h path [] = Inr result
                  \<and> (str_contains (task_status result) ''done'' \<longleftrightarrow>
                       k \<le> length (filter (is_task_fetch (p_name (params self))) h))"
    and "\<forall>h. \<exists>st message. gw_get_install_status (client self) h
                  (''/dedicated/server/'' @ p_name (params self) @ ''/install/status'') [] = Inr st
                  \<and> progress_message st = Inr message"
    and "filter (is_task_fetch (p_name (params self))) tr = []"
  shows "(\<exists>st. fst (get_status_install py self tr) =
                 Return (succeed (JStr (st @ '': '')) False JNone JNone)
               \<and> str_contains st ''done'')
         \<and> length (filter (is_task_fetch (p_name (params self)))
               (snd (get_status_install py self tr))) = k + 1
         \<and> length (filter is_sleep (snd (get_status_install py self tr))) =
             length (filter is_sleep tr) + k"
proof -
  let ?is = "py_range 1 n"
  have len: "k - 0 < length ?is"
    using assms(4) py_range_1(3) [of n] by simp
  have c0: "length (filter (is_task_fetch (p_name (params self))) tr) = 0"
    using assms(10) by simp
  obtain r tr' where l: "status_loop py self ?is tr = (r, tr')"
    by (cases "status_loop py self ?is tr")
  from status_loop_done_after [OF assms(7,8,9,3,5,6) c0 _ len] l
  have "\<exists>st. r = Some (Return (succeed (JStr (st @ '': '')) False JNone JNone))
               \<and> str_contains st ''done''"
    and "length (filter (is_task_fetch (p_name (params self))) tr') = k + 1"
    and "length (filter is_sleep tr') = length (filter is_sleep tr) + k"
    by simp_all
  then show ?thesis
    using assms(1,2,3) l by (auto simp: get_status_install_def Let_def)
qed

section \<open>Monitoring\<close>

lemma py_range_1_3:
  assumes "3 \<le> n"
  shows "\<exists>rest. py_range 1 n = 1 # 2 # rest"
proof -
  have "[1..n - 1] = 1 # [1 + 1..n - 1]" using assms by (intro upto_rec1) simp
  moreover have "[1 + 1..n - 1] = (1 + 1) # [1 + 1 + 1..n - 1]" using assms by (intro upto_rec1) simp
  ultimately show ?thesis by (simp add: py_range_def)
qed

text \<open>
  One attempt of the monitoring poll whose read returns a flag other than the wanted one:
  the put of the wanted value follows the read, the sleep follows the accepted put, and
  the poll goes on to its next attempt.
\<close>

lemma monitoring_loop_mismatch:
  assumes "gw_get_server (client self) tr (''/dedicated/server/'' @ p_name (params self)) [] =
             Inr server_state"
    and "monitoring server_state \<noteq> shouldbe"
    and "gw_put (client self)
           (tr @ [Get (''/dedicated/server/'' @ p_name (params self)) []])
           (''/dedicated/server/'' @ p_name (params self))
           [(''monitoring'', JBool shouldbe)] = Inr r"
    and "py_float py (p_sleep (params self)) = Inr secs"
    and "py_sleep_refused py secs = None"
  shows "monitoring_loop py self shouldbe (i # rest) tr =
           monitoring_loop py self shouldbe rest
             (tr @ [Get (''/dedicated/server/'' @ p_name (params self)) [],
                    Put (''/dedicated/server/'' @ p_name (params self))
                      [(''monitoring'', JBool shouldbe)],
                    Sleep secs])"
  using assms by (simp add: client_defs Let_def time_sleep_def)

text \<open>
  The poll of either state when the flag differs at the first read and the put is accepted,
  outside check mode. With \<^verbatim>\<open>int(max_retry)\<close> at least 3 and the flag as wanted at the
  second read, the calls are get, put, sleep, get and the outcome is \<^verbatim>\<open>changed=True\<close>
  "after 2 time(s)". With \<^verbatim>\<open>int(max_retry)\<close> equal to 2 there is no second read: the
  calls are get, put, sleep and the outcome is the failure "Could not change monitoring
  flag".
\<close>

lemma change_monitoring_second_attempt:
  assumes "\<not> check_mode self"
    and "p_name (params self) \<noteq> []"
    and "p_state (params self) = ''present'' \<or> p_state (params self) = ''absent''"
    and "py_int py (p_max_retry (params self)) = Inr n"
    and "3 \<le> n"
    and "py_float py (p_sleep (params self)) = Inr secs"
    and "py_sleep_refused py secs = None"
    and "gw_get_server (client self) tr (''/dedicated/server/'' @ p_name (params self)) [] =
           Inr before"
    and "monitoring before \<noteq> (p_state (params self) = ''present'')"
    and "gw_put (client self)
           (tr @ [Get (''/dedicated/server/'' @ p_name (params self)) []])
           (''/dedicated/server/'' @ p_name (params self))
           [(''monitoring'', JBool (p_state (params self) = ''present''))] = Inr r"
    and "gw_get_server (client self)
           (tr @ [Get (''/dedicated/server/'' @ p_name (params self)) [],
                  Put (''/dedicated/server/'' @ p_name (params self))
                    [(''monitoring'', JBool (p_state (params self) = ''present''))],
                  Sleep secs])
           (''/dedicated/server/'' @ p_name (params self)) [] = Inr after"
    and "monitoring after = (p_state (params self) = ''present'')"
  shows "change_monitoring py self tr =
           (Return (succeed
              (JStr (''Monitoring '' @
                 (if p_state (params self) = ''present'' then ''activated'' else ''deactivated'') @
                 '' on '' @ p_name (params self) @ '' after '' @ str_int 2 @ '' time(s)''))
              True JNone JNone),
            tr @ [Get (''/dedicated/server/'' @ p_name (params self)) [],
                  Put (''/dedicated/server/'' @ p_name (params self))
                    [(''monitoring'', JBool (p_state (params self) = ''present''))],
                  Sleep secs,
                  Get (''/dedicated/server/'' @ p_name (params self)) []])"
proof -
  obtain rest where rg: "py_range 1 n = 1 # 2 # rest"
    using py_range_1_3 [OF assms(5)] by blast
  have empty: "p_state (params self) \<noteq> []"
    using assms(3) by auto
  show ?thesis
    using assms(1,2,3,4) empty rg
      monitoring_loop_mismatch [OF assms(8,9,10,6,7), of 1 "2 # rest"] assms(11,12)
    by (auto simp: change_monitoring_def client_defs Let_def)
qed

lemma change_monitoring_two_tries:
  assumes "\<not> check_mode self"
    and "p_name (params self) \<noteq> []"
    and "p_state (params self) = ''present'' \<or> p_state (params self) = ''absent''"
    and "py_int py (p_max_retry (params self)) = Inr 2"
    and "py_float py (p_sleep (params self)) = Inr secs"
    and "py_sleep_refused py secs = None"
    and "gw_get_server (client self) tr (''/dedicated/server/'' @ p_name (params self)) [] =
           Inr before"
    and "monitoring before \<noteq> (p_state (params self) = ''present'')"
    and "gw_put (client self)
           (tr @ [Get (''/dedicated/server/'' @ p_name (params self)) []])
           (''/dedicated/server/'' @ p_name (params self))
           [(''monitoring'', JBool (p_state (params self) = ''present''))] = Inr r"
  shows "change_monitoring py self tr =
           (Return (fail ''Could not change monitoring flag''),
            tr @ [Get (''/dedicated/server/'' @ p_name (params self)) [],
                  Put (''/dedicated/server/'' @ p_name (params self))
                    [(''monitoring'', JBool (p_state (params self) = ''present''))],
                  Sleep secs])"
proof -
  have rg: "py_range 1 2 = [1]"
    by (simp add: py_range_def upto.simps)
  have empty: "p_state (params self) \<noteq> []"
    using assms(3) by auto
  show ?thesis
    using assms(1,2,3,4) empty rg
      monitoring_loop_mismatch [OF assms(7,8,9,5,6), of 1 "[]"]
    by (auto simp: change_monitoring_def Let_def)
qed

lemmas monitoring_example_defs =
  monitoring_module_def monitoring_module_tries_def monitoring_gateway_def stub_gateway_def
  default_params_def

text \<open>
  Claim C8 fails on the code. The gateway keeps the flag it was last given, the flag is true
  and the wanted state is absent. With \<^verbatim>\<open>max_retry\<close> \<^verbatim>\<open>'2'\<close>, documented as the number of
  tries, the poll reads the flag, puts false, sleeps, and then fails with "Could not change
  monitoring flag": \<^verbatim>\<open>range(1, int(max_retry))\<close> has no attempt 2, so the convergence is
  never observed and no \<^verbatim>\<open>changed=True\<close> is reported for the write that was made. With
  \<^verbatim>\<open>max_retry\<close> \<^verbatim>\<open>'3'\<close> the same server gives what the claim describes: get, put of false,
  sleep, get, and \<^verbatim>\<open>changed=True\<close> "after 2 time(s)".
\<close>

theorem change_monitoring_no_second_attempt:
  "change_monitoring plain_python (monitoring_module_tries True ''absent'' ''2'') [] =
     (Return (fail ''Could not change monitoring flag''),
      [Get ''/dedicated/server/sv1'' [],
       Put ''/dedicated/server/sv1'' [(''monitoring'', JBool False)],
       Sleep 10])
   \<and> change_monitoring plain_python (monitoring_module_tries True ''absent'' ''3'') [] =
     (Return (None, True, [(''msg'', JStr ''Monitoring deactivated on sv1 after 2 time(s)'')]),
      [Get ''/dedicated/server/sv1'' [],
       Put ''/dedicated/server/sv1'' [(''monitoring'', JBool False)],
       Sleep 10,
       Get ''/dedicated/server/sv1'' []])"
  by (simp add: change_monitoring_def Let_def py_range_def upto.simps client_defs
        monitoring_example_defs time_sleep_def succeed_def str_int_eval python_reads)

text \<open>
  Claim C2 fails on the code for the monitoring kind. The flag is already true and the
  wanted state is present: the first call finds the flag as wanted at its first read, writes
  nothing, and reports \<^verbatim>\<open>changed=True\<close>; the second call, run after the first, does the
  same.
\<close>

theorem change_monitoring_always_changed:
  "change_monitoring plain_python (monitoring_module True ''present'') [] =
     (Return (None, True, [(''msg'', JStr ''Monitoring activated on sv1 after 1 time(s)'')]),
      [Get ''/dedicated/server/sv1'' []])
   \<and> change_monitoring plain_python (monitoring_module True ''present'')
       [Get ''/dedicated/server/sv1'' []] =
     (Return (None, True, [(''msg'', JStr ''Monitoring activated on sv1 after 1 time(s)'')]),
      [Get ''/dedicated/server/sv1'' [], Get ''/dedicated/server/sv1'' []])"
  by (simp add: change_monitoring_def Let_def py_range_def upto.simps client_defs
        monitoring_example_defs succeed_def str_int_eval python_reads)

section \<open>Check mode\<close>

lemma status_loop_frame:
  "filter is_mutating (snd (status_loop py self is tr)) = filter is_mutating tr
   \<and> fst (status_loop py self is tr) \<noteq> Some (Return (None, True, r))"
proof (induction "is" arbitrary: tr)
  case Nil
  then show ?case by simp
next
  case (Cons i rest)
  show ?case
    using Cons.IH
    by (auto simp: client_defs Let_def time_sleep_def except_APIError_def fail_def succeed_def
          split: prod.splits sum.splits option.splits if_splits)
qed

lemma get_status_install_frame:
  "filter is_mutating (snd (get_status_install py self tr)) = filter is_mutating tr
   \<and> fst (get_status_install py self tr) \<noteq> Return (None, True, r)"
proof (cases "py_int py (p_max_retry (params self))")
  case (Inl e)
  then show ?thesis by (simp add: get_status_install_def Let_def fail_def succeed_def)
next
  case (Inr n)
  show ?thesis
    using Inr status_loop_frame [of py self "py_range 1 n" tr r]
    by (auto simp: get_status_install_def Let_def fail_def succeed_def
          split: prod.splits option.splits sum.splits)
qed

lemma get_mac_frame:
  "filter is_mutating (snd (get_mac self tr)) = filter is_mutating tr
   \<and> fst (get_mac self tr) \<noteq> Return (None, True, r)"
  by (auto simp: get_mac_def client_defs Let_def succeed_def split: sum.splits)

lemma list_dedicated_loop_frame:
  "filter is_mutating (snd (list_dedicated_loop self servers acc tr)) = filter is_mutating tr"
  by (induction servers arbitrary: acc tr) (auto simp: client_defs split: prod.splits sum.splits)

lemma list_service_frame:
  "filter is_mutating (snd (list_service self tr)) = filter is_mutating tr
   \<and> fst (list_service self tr) \<noteq> Return (None, True, r)"
proof -
  have "filter is_mutating (snd (list_dedicated self tr)) = filter is_mutating tr
      \<and> fst (list_dedicated self tr) \<noteq> Return (None, True, r)"
  proof (cases "gw_get_names (client self) tr ''/dedicated/server'' []")
    case (Inl e)
    then show ?thesis
      by (simp add: list_dedicated_def client_defs except_APIError_def fail_def)
  next
    case (Inr result)
    obtain l tr2 where l: "list_dedicated_loop self result [] (tr @ [Get ''/dedicated/server'' []]) = (l, tr2)"
      by (cases "list_dedicated_loop self result [] (tr @ [Get ''/dedicated/server'' []])")
    have "filter is_mutating tr2 = filter is_mutating tr"
      using list_dedicated_loop_frame [of self result "[]" "tr @ [Get ''/dedicated/server'' []]"] l
      by simp
    then show ?thesis
      using Inr l
      by (auto simp: list_dedicated_def client_defs except_APIError_def fail_def succeed_def
            split: sum.splits)
  qed
  moreover have "filter is_mutating (snd (list_templates self tr)) = filter is_mutating tr
      \<and> fst (list_templates self tr) \<noteq> Return (None, True, r)"
    by (auto simp: list_templates_def client_defs except_APIError_def fail_def succeed_def Let_def
          split: sum.splits)
  ultimately show ?thesis
    by (simp add: list_service_def Let_def fail_def)
qed

lemma change_dns_check_mode:
  "snd (change_dns \<lparr>check_mode = True, params = ps, client = g\<rparr> tr) = tr"
  by (simp add: change_dns_def Let_def)

lemma change_dns_sim_changed:
  assumes "(\<exists>r. fst (change_dns \<lparr>check_mode = False, params = ps, client = g\<rparr> tr) = Return (None, True, r))
         \<or> filter is_mutating (snd (change_dns \<lparr>check_mode = False, params = ps, client = g\<rparr> tr)) \<noteq> filter is_mutating tr"
  shows "\<exists>r. fst (change_dns \<lparr>check_mode = True, params = ps, client = g\<rparr> tr) = Return (None, True, r)"
proof (cases "p_domain ps = []")
  case True
  then have "change_dns \<lparr>check_mode = False, params = ps, client = g\<rparr> tr =
               (Return (fail ''Please give a domain to add your target''), tr)"
    by (simp add: change_dns_def Let_def)
  with assms show ?thesis by (simp add: fail_def)
next
  case False
  then show ?thesis by (simp add: change_dns_def Let_def succeed_def)
qed

lemma terminate_server_check_mode:
  "snd (terminate_server \<lparr>check_mode = True, params = ps, client = g\<rparr> tr) = tr"
  by (simp add: terminate_server_def Let_def)

lemma terminate_server_sim_changed:
  assumes "(\<exists>r. fst (terminate_server \<lparr>check_mode = False, params = ps, client = g\<rparr> tr) = Return (None, True, r))
         \<or> filter is_mutating (snd (terminate_server \<lparr>check_mode = False, params = ps, client = g\<rparr> tr)) \<noteq> filter is_mutating tr"
  shows "\<exists>r. fst (terminate_server \<lparr>check_mode = True, params = ps, client = g\<rparr> tr) = Return (None, True, r)"
  using assms by (cases "p_name ps = []") (simp_all add: terminate_server_def Let_def succeed_def fail_def)

lemma launch_install_check_mode:
  "filter is_mutating (snd (launch_install \<lparr>check_mode = True, params = ps, client = g\<rparr> tr)) =
   filter is_mutating tr"
  by (simp add: launch_install_def client_defs Let_def) (simp split: sum.splits)

lemma launch_install_sim_changed:
  assumes "(\<exists>r. fst (launch_install \<lparr>check_mode = False, params = ps, client = g\<rparr> tr) = Return (None, True, r))
         \<or> filter is_mutating (snd (launch_install \<lparr>check_mode = False, params = ps, client = g\<rparr> tr)) \<noteq> filter is_mutating tr"
  shows "\<exists>r. fst (launch_install \<lparr>check_mode = True, params = ps, client = g\<rparr> tr) = Return (None, True, r)"
proof -
  let ?path = "''/dedicated/server/'' @ p_name ps @ ''/install/compatibleTemplates''"
  consider (invalid) "p_name ps = [] \<or> p_template ps = [] \<or> p_hostname ps = []"
    | (error) e where "p_name ps \<noteq> []" "p_template ps \<noteq> []" "p_hostname ps \<noteq> []"
        "gw_get_templates g tr ?path [] = Inl e"
    | (missing) ct where "p_name ps \<noteq> []" "p_template ps \<noteq> []" "p_hostname ps \<noteq> []"
        "gw_get_templates g tr ?path [] = Inr ct" "p_template ps \<notin> set (concat (map snd ct))"
    | (ok) ct where "p_name ps \<noteq> []" "p_template ps \<noteq> []" "p_hostname ps \<noteq> []"
        "gw_get_templates g tr ?path [] = Inr ct" "p_template ps \<in> set (concat (map snd ct))"
    by (cases "gw_get_templates g tr ?path []") blast+
  then show ?thesis
  proof cases
    case invalid
    then have "\<exists>m. launch_install \<lparr>check_mode = False, params = ps, client = g\<rparr> tr = (Return (fail m), tr)"
      by (auto simp: launch_install_def Let_def)
    with assms show ?thesis by (auto simp: fail_def)
  next
    case error
    then have "launch_install \<lparr>check_mode = False, params = ps, client = g\<rparr> tr =
                 (except_APIError e, tr @ [Get ?path []])"
      by (simp add: launch_install_def client_defs Let_def)
    with assms show ?thesis by (auto simp: fail_def except_APIError_def split: if_splits)
  next
    case missing
    then have "\<exists>m. launch_install \<lparr>check_mode = False, params = ps, client = g\<rparr> tr =
                 (Return (fail m), tr @ [Get ?path []])"
      by (auto simp: launch_install_def client_defs Let_def)
    with assms show ?thesis by (auto simp: fail_def)
  next
    case ok
    then show ?thesis
      by (simp add: launch_install_def client_defs Let_def succeed_def)
  qed
qed

lemma change_reverse_check_mode:
  "filter is_mutating (snd (change_reverse \<lparr>check_mode = True, params = ps, client = g\<rparr> tr)) =
   filter is_mutating tr"
  by (simp add: change_reverse_def client_defs Let_def) (simp split: sum.splits exn.splits)

lemma change_monitoring_check_mode:
  "snd (change_monitoring py \<lparr>check_mode = True, params = ps, client = g\<rparr> tr) = tr"
  by (simp add: change_monitoring_def Let_def)

lemma change_boot_dedicated_check_mode:
  "change_boot_dedicated \<lparr>check_mode = True, params = ps, client = g\<rparr> tr =
     (Return (succeed
        (JStr (p_name ps @ '' is now set to boot on '' @ p_boot ps @
           ''. Reboot in progress... - (dry run mode)'')) True JNone JNone), tr)"
  by (simp add: change_boot_dedicated_def Let_def)

lemma generate_template_check_mode:
  "snd (generate_template load \<lparr>check_mode = True, params = ps, client = g\<rparr> tr) = tr"
  by (simp add: generate_template_def Let_def)

lemma change_vrack_check_mode:
  "snd (change_vrack \<lparr>check_mode = True, params = ps, client = g\<rparr> tr) = tr"
  by (simp add: change_vrack_def Let_def)

lemma change_monitoring_sim_changed:
  assumes "(\<exists>r. fst (change_monitoring py \<lparr>check_mode = False, params = ps, client = g\<rparr> tr) = Return (None, True, r))
         \<or> filter is_mutating (snd (change_monitoring py \<lparr>check_mode = False, params = ps, client = g\<rparr> tr)) \<noteq> filter is_mutating tr"
  shows "\<exists>r. fst (change_monitoring py \<lparr>check_mode = True, params = ps, client = g\<rparr> tr) = Return (None, True, r)"
proof (cases "p_name ps = [] \<or> p_state ps = [] \<or> (p_state ps \<noteq> ''present'' \<and> p_state ps \<noteq> ''absent'')")
  case True
  then have "\<exists>m. change_monitoring py \<lparr>check_mode = False, params = ps, client = g\<rparr> tr = (Return (fail m), tr)"
    by (auto simp: change_monitoring_def Let_def)
  with assms show ?thesis by (auto simp: fail_def)
next
  case False
  then show ?thesis by (auto simp: change_monitoring_def Let_def succeed_def)
qed

lemma generate_template_sim_changed:
  assumes "(\<exists>r. fst (generate_template load \<lparr>check_mode = False, params = ps, client = g\<rparr> tr) = Return (None, True, r))
         \<or> filter is_mutating (snd (generate_template load \<lparr>check_mode = False, params = ps, client = g\<rparr> tr)) \<noteq> filter is_mutating tr"
  shows "\<exists>r. fst (generate_template load \<lparr>check_mode = True, params = ps, client = g\<rparr> tr) = Return (None, True, r)"
proof (cases "p_template ps = []")
  case True
  then have "generate_template load \<lparr>check_mode = False, params = ps, client = g\<rparr> tr =
               (Return (fail ''No template parameter given''), tr)"
    by (simp add: generate_template_def Let_def)
  with assms show ?thesis by (simp add: fail_def)
next
  case False
  then show ?thesis by (simp add: generate_template_def Let_def succeed_def)
qed

lemma change_vrack_sim_changed:
  assumes "(\<exists>r. fst (change_vrack \<lparr>check_mode = False, params = ps, client = g\<rparr> tr) = Return (None, True, r))
         \<or> filter is_mutating (snd (change_vrack \<lparr>check_mode = False, params = ps, client = g\<rparr> tr)) \<noteq> filter is_mutating tr"
  shows "\<exists>r. fst (change_vrack \<lparr>check_mode = True, params = ps, client = g\<rparr> tr) = Return (None, True, r)"
proof (cases "p_vrack ps = [] \<or> (p_state ps \<noteq> ''present'' \<and> p_state ps \<noteq> ''absent'')")
  case True
  then have "\<exists>e c m. change_vrack \<lparr>check_mode = False, params = ps, client = g\<rparr> tr = (Return (e, False, m), tr)"
    by (auto simp: change_vrack_def Let_def fail_def succeed_def)
  with assms show ?thesis by auto
next
  case False
  then show ?thesis by (auto simp: change_vrack_def Let_def succeed_def)
qed

lemma change_reverse_sim_changed:
  assumes "(\<exists>r. fst (change_reverse \<lparr>check_mode = False, params = ps, client = g\<rparr> tr) = Return (None, True, r))
         \<or> filter is_mutating (snd (change_reverse \<lparr>check_mode = False, params = ps, client = g\<rparr> tr)) \<noteq> filter is_mutating tr"
  shows "\<exists>r. fst (change_reverse \<lparr>check_mode = True, params = ps, client = g\<rparr> tr) = Return (None, True, r)"
proof -
  let ?path = "''/ip/'' @ p_ip ps @ ''/reverse/'' @ p_ip ps"
  let ?fqdn = "p_name ps @ ''.'' @ p_domain ps @ ''.''"
  define current where "current =
     (case gw_get_reverse g tr ?path [] of
        Inr v \<Rightarrow> Some v
      | Inl (ResourceNotFoundError m) \<Rightarrow> Some []
      | Inl e \<Rightarrow> None)"
  consider (invalid) "p_domain ps = [] \<or> p_ip ps = []"
    | (raised) "p_domain ps \<noteq> []" "p_ip ps \<noteq> []" "current = None"
    | (same) "p_domain ps \<noteq> []" "p_ip ps \<noteq> []" "current = Some ?fqdn"
    | (other) v where "p_domain ps \<noteq> []" "p_ip ps \<noteq> []" "current = Some v" "v \<noteq> ?fqdn"
    by (cases current) auto
  then show ?thesis
  proof cases
    case invalid
    then have "\<exists>m. change_reverse \<lparr>check_mode = False, params = ps, client = g\<rparr> tr = (Return (fail m), tr)"
      by (auto simp: change_reverse_def Let_def)
    with assms show ?thesis by (auto simp: fail_def)
  next
    case raised
    then have "\<exists>e. change_reverse \<lparr>check_mode = False, params = ps, client = g\<rparr> tr =
                 (Raise e, tr @ [Get ?path []])"
      by (auto simp: change_reverse_def client_defs Let_def current_def split: sum.splits exn.splits)
    with assms show ?thesis by auto
  next
    case same
    then have "change_reverse \<lparr>check_mode = False, params = ps, client = g\<rparr> tr =
                 (Return (succeed (JStr ''Reverse already set'') False JNone JNone),
                  tr @ [Get ?path []])"
      by (auto simp: change_reverse_def client_defs Let_def current_def split: sum.splits exn.splits)
    with assms show ?thesis by (auto simp: succeed_def)
  next
    case other
    then show ?thesis
      by (auto simp: change_reverse_def client_defs Let_def current_def succeed_def
            split: sum.splits exn.splits)
  qed
qed

lemma get_mac_check:
  "filter is_mutating (snd (get_mac S tr)) = filter is_mutating tr
   \<and> ((\<exists>r. fst (get_mac R tr) = Return (None, True, r))
        \<or> filter is_mutating (snd (get_mac R tr)) \<noteq> filter is_mutating tr
      \<longrightarrow> (\<exists>r. fst (get_mac S tr) = Return (None, True, r)))"
  using get_mac_frame [of S tr] get_mac_frame [of R tr] by blast

lemma get_status_install_check:
  "filter is_mutating (snd (get_status_install py S tr)) = filter is_mutating tr
   \<and> ((\<exists>r. fst (get_status_install py R tr) = Return (None, True, r))
        \<or> filter is_mutating (snd (get_status_install py R tr)) \<noteq> filter is_mutating tr
      \<longrightarrow> (\<exists>r. fst (get_status_install py S tr) = Return (None, True, r)))"
  using get_status_install_frame [of py S tr] get_status_install_frame [of py R tr] by blast

lemma list_service_check:
  "filter is_mutating (snd (list_service S tr)) = filter is_mutating tr
   \<and> ((\<exists>r. fst (list_service R tr) = Return (None, True, r))
        \<or> filter is_mutating (snd (list_service R tr)) \<noteq> filter is_mutating tr
      \<longrightarrow> (\<exists>r. fst (list_service S tr) = Return (None, True, r)))"
  using list_service_frame [of S tr] list_service_frame [of R tr] by blast

text \<open>
  Claim C3. Whatever the service, the parameters, the environment and the gateway, a run
  in check mode issues no post, put or delete. And whenever the same run outside check
  mode reports \<^verbatim>\<open>changed=True\<close> or issues a post, put or delete (a decision that is not
  a no-op), the run in check mode reports \<^verbatim>\<open>changed=True\<close>.
\<close>

theorem run_check_mode:
  "filter is_mutating (snd (run env True ps tr)) = filter is_mutating tr
   \<and> ((\<exists>r. fst (run env False ps tr) = Return (None, True, r))
        \<or> filter is_mutating (snd (run env False ps tr)) \<noteq> filter is_mutating tr
      \<longrightarrow> (\<exists>r. fst (run env True ps tr) = Return (None, True, r)))"
proof (cases "HAS_OVH env")
  case False
  then show ?thesis by (simp add: run_def fail_def)
next
  case True
  show ?thesis
  proof (cases "ovh_Client env")
    case (Inl e)
    then show ?thesis using True by (simp add: run_def except_APIError_def fail_def)
  next
    case (Inr g)
    let ?S = "\<lparr>check_mode = True, params = ps, client = g\<rparr>"
    let ?R = "\<lparr>check_mode = False, params = ps, client = g\<rparr>"
    consider (dns) "p_service ps = ''dns''" | (getmac) "p_service ps = ''getmac''"
      | (terminate) "p_service ps = ''terminate''" | (status) "p_service ps = ''status''"
      | (install) "p_service ps = ''install''" | (monitoring) "p_service ps = ''monitoring''"
      | (reverse) "p_service ps = ''reverse''" | (list) "p_service ps = ''list''"
      | (boot) "p_service ps = ''boot''" | (template) "p_service ps = ''template''"
      | (vrack) "p_service ps = ''vrack''"
      | (other) "p_service ps \<notin> {''dns'', ''getmac'', ''terminate'', ''status'', ''install'',
           ''monitoring'', ''reverse'', ''list'', ''boot'', ''template'', ''vrack''}"
      by blast
    then show ?thesis
    proof cases
      case dns
      then have "run env cm ps tr = change_dns \<lparr>check_mode = cm, params = ps, client = g\<rparr> tr" for cm
        using True Inr by (simp add: run_def)
      then show ?thesis
        using change_dns_check_mode [of ps g tr] change_dns_sim_changed [of ps g tr] by simp
    next
      case getmac
      then have "run env cm ps tr = get_mac \<lparr>check_mode = cm, params = ps, client = g\<rparr> tr" for cm
        using True Inr by (simp add: run_def)
      then show ?thesis using get_mac_check [of ?S tr ?R] by simp
    next
      case terminate
      then have "run env cm ps tr = terminate_server \<lparr>check_mode = cm, params = ps, client = g\<rparr> tr" for cm
        using True Inr by (simp add: run_def)
      then show ?thesis
        using terminate_server_check_mode [of ps g tr] terminate_server_sim_changed [of ps g tr]
        by simp
    next
      case status
      then have "run env cm ps tr = get_status_install (python env) \<lparr>check_mode = cm, params = ps, client = g\<rparr> tr" for cm
        using True Inr by (simp add: run_def)
      then show ?thesis using get_status_install_check [of "python env" ?S tr ?R] by simp
    next
      case install
      then have "run env cm ps tr = launch_install \<lparr>check_mode = cm, params = ps, client = g\<rparr> tr" for cm
        using True Inr by (simp add: run_def)
      then show ?thesis
        using launch_install_check_mode [of ps g tr] launch_install_sim_changed [of ps g tr]
        by simp
    next
      case monitoring
      then have "run env cm ps tr = change_monitoring (python env) \<lparr>check_mode = cm, params = ps, client = g\<rparr> tr" for cm
        using True Inr by (simp add: run_def)
      then show ?thesis
        using change_monitoring_check_mode [of "python env" ps g tr]
          change_monitoring_sim_changed [of "python env" ps g tr]
        by simp
    next
      case reverse
      then have "run env cm ps tr = change_reverse \<lparr>check_mode = cm, params = ps, client = g\<rparr> tr" for cm
        using True Inr by (simp add: run_def)
      then show ?thesis
        using change_reverse_check_mode [of ps g tr] change_reverse_sim_changed [of ps g tr]
        by simp
    next
      case list
      then have "run env cm ps tr = list_service \<lparr>check_mode = cm, params = ps, client = g\<rparr> tr" for cm
        using True Inr by (simp add: run_def)
      then show ?thesis using list_service_check [of ?S tr ?R] by simp
    next
      case boot
      then have "run env cm ps tr = change_boot_dedicated \<lparr>check_mode = cm, params = ps, client = g\<rparr> tr" for cm
        using True Inr by (simp add: run_def)
      then show ?thesis
        using change_boot_dedicated_check_mode [of ps g tr] by (simp add: succeed_def)
    next
      case template
      then have "run env cm ps tr = generate_template (yaml_load env) \<lparr>check_mode = cm, params = ps, client = g\<rparr> tr" for cm
        using True Inr by (simp add: run_def)
      then show ?thesis
        using generate_template_check_mode [of "yaml_load env" ps g tr]
          generate_template_sim_changed [of "yaml_load env" ps g tr]
        by simp
    next
      case vrack
      then have "run env cm ps tr = change_vrack \<lparr>check_mode = cm, params = ps, client = g\<rparr> tr" for cm
        using True Inr by (simp add: run_def)
      then show ?thesis
        using change_vrack_check_mode [of ps g tr] change_vrack_sim_changed [of ps g tr]
        by simp
    next
      case other
      then have "\<exists>e. run env cm ps tr = (Raise e, tr)" for cm
        using True Inr by (simp add: run_def)
      then show ?thesis by (metis fst_conv snd_conv res.distinct(3))
    qed
  qed
qed

text \<open>
  The theorem at work: server sv1 boots on the hard disk (boot id 1) and rescue is wanted.
  The run outside check mode puts the new boot id; the run in check mode reports
  \<^verbatim>\<open>changed=True\<close> and calls nothing.
\<close>

theorem run_check_mode_witness:
  "filter is_mutating (snd (run (boot_environment 1) False (params (boot_module 1 ''rescue'' False)) [])) =
     [Put ''/dedicated/server/sv1'' [(''bootId'', JInt 1122)]]
   \<and> filter is_mutating (snd (run (boot_environment 1) True (params (boot_module 1 ''rescue'' False)) [])) = []
   \<and> (\<exists>r. fst (run (boot_environment 1) True (params (boot_module 1 ''rescue'' False)) []) =
          Return (None, True, r))"
proof -
  let ?ps = "params (boot_module 1 ''rescue'' False)"
  have real: "filter is_mutating (snd (run (boot_environment 1) False ?ps [])) =
     [Put ''/dedicated/server/sv1'' [(''bootId'', JInt 1122)]]"
    by (simp add: run_def boot_environment_def boot_module_def boot_gateway_def stub_gateway_def
          default_params_def change_boot_dedicated_def client_defs bootid_def Let_def)
  show ?thesis
    using run_check_mode [of "boot_environment 1" ?ps "[]"] real by simp
qed

section \<open>Gateway errors\<close>

text \<open>
  Claim C4 fails on the code: three reads have no \<^verbatim>\<open>try\<close> around them, and an
  \<^verbatim>\<open>APIError\<close> raised there leaves the method as an exception instead of a failure
  outcome. \<^verbatim>\<open>get_mac\<close> on a gateway that refuses every call; the status poll on a gateway
  whose progress report (\<^verbatim>\<open>install/status\<close>) is refused; template creation on a gateway
  whose hardware RAID profile is refused.
\<close>

theorem remote_error_escapes:
  "get_mac mac_module [] =
     (Raise (APIError ''This service is unavailable''),
      [Get ''/dedicated/server/sv1/networkInterfaceController?linkType=private'' []])
   \<and> fst (get_status_install plain_python progress_down_module []) = Raise (APIError ''Internal server error'')
   \<and> fst (generate_template example_yaml profile_down_module []) =
       Raise (APIError ''Internal server error'')"
proof (intro conjI)
  show "get_mac mac_module [] =
     (Raise (APIError ''This service is unavailable''),
      [Get ''/dedicated/server/sv1/networkInterfaceController?linkType=private'' []])"
    by (simp add: get_mac_def mac_module_def stub_gateway_def default_params_def client_defs Let_def)
  show "fst (get_status_install plain_python progress_down_module []) = Raise (APIError ''Internal server error'')"
    by (simp add: get_status_install_def Let_def py_range_def upto.simps client_defs
          progress_down_module_def polling_gateway_def stub_gateway_def default_params_def
          py_max_def str_int_eval python_reads)
  show "fst (generate_template example_yaml profile_down_module []) =
       Raise (APIError ''Internal server error'')"
    by (simp add: generate_template_def template_create_def template_hardware_raid_def
          client_defs profile_down_module_def template_example_defs)
qed

end
